theory Spec2Isabelle
  imports Complex_Main "HOL-Library.Sublist"
begin

section \<open>Python values and errors\<close>

text \<open>
  The weather application is Python glue over three HTTP services and pandas. Its values
  are the values \<open>json()\<close> yields: \<open>None\<close>, booleans, integers, floats, strings, lists
  and dictionaries. A dictionary is an association list in insertion order.

  A float is carried by the decimal numeral Python prints for it (\<open>14.6\<close>, \<open>15.0\<close>): a
  sign, the integer part and the fraction digits. Its numeric value is the rational that
  numeral denotes, and float arithmetic is exact rational arithmetic: binary rounding
  error, infinities, NaN, negative zero and exponent notation are outside this model.
  A character is a code point below 256, so the degree sign is \<open>CHR 0xB0\<close>.
\<close>

datatype digit = D0 | D1 | D2 | D3 | D4 | D5 | D6 | D7 | D8 | D9

datatype json =
    JNone
  | JBool bool
  | JInt int
  | JFloat bool nat "digit list"
  | JStr string
  | JList "json list"
  | JDict "(string \<times> json) list"

datatype error =
    KeyError string
  | IndexError
  | TypeError
  | ValueError
  | UnknownTimeZoneError
  | Unmodelled

text \<open>
  A raised exception is the left summand of the result. \<open>Unmodelled\<close> marks an input on
  which this model does not say what Python does.
\<close>

type_synonym 'a result = "error + 'a"

definition and_then :: "'a result \<Rightarrow> ('a \<Rightarrow> 'b result) \<Rightarrow> 'b result" where
  "and_then r f = (case r of Inl e \<Rightarrow> Inl e | Inr v \<Rightarrow> f v)"

text \<open>\<open>d[k]\<close> with a string key: \<open>KeyError\<close> on a dictionary without the key,
  \<open>TypeError\<close> on every other value.\<close>

fun subscript :: "json \<Rightarrow> string \<Rightarrow> json result" where
  "subscript (JDict kvs) k =
     (case map_of kvs k of None \<Rightarrow> Inl (KeyError k) | Some v \<Rightarrow> Inr v)"
| "subscript _ k = Inl TypeError"

text \<open>\<open>xs[0]\<close>: \<open>IndexError\<close> on the empty list, \<open>KeyError\<close> on a dictionary (whose keys
  are strings), \<open>TypeError\<close> on a value that cannot be subscripted. The first character
  of a string is itself a string.\<close>

fun first_item :: "json \<Rightarrow> json result" where
  "first_item (JList []) = Inl IndexError"
| "first_item (JList (x # xs)) = Inr x"
| "first_item (JStr []) = Inl IndexError"
| "first_item (JStr (c # cs)) = Inr (JStr [c])"
| "first_item (JDict kvs) = Inl (KeyError ''0'')"
| "first_item _ = Inl TypeError"

section \<open>Printing and reading numbers\<close>

definition digit_chars :: string where
  "digit_chars = ''0123456789''"

definition digit_char :: "nat \<Rightarrow> char" where
  "digit_char n = digit_chars ! (n mod 10)"

fun show_nat :: "nat \<Rightarrow> string" where
  "show_nat n =
     (if n < 10 then [digit_char n] else show_nat (n div 10) @ [digit_char (n mod 10)])"

declare show_nat.simps [simp del]

definition show_int :: "int \<Rightarrow> string" where
  "show_int i = (if i < 0 then ''-'' @ show_nat (nat (- i)) else show_nat (nat i))"

fun digit_val :: "digit \<Rightarrow> nat" where
  "digit_val D0 = 0" | "digit_val D1 = 1" | "digit_val D2 = 2" | "digit_val D3 = 3"
| "digit_val D4 = 4" | "digit_val D5 = 5" | "digit_val D6 = 6" | "digit_val D7 = 7"
| "digit_val D8 = 8" | "digit_val D9 = 9"

definition show_float :: "bool \<Rightarrow> nat \<Rightarrow> digit list \<Rightarrow> string" where
  "show_float neg whole ds =
     (if neg then ''-'' else '''') @ show_nat whole @ ''.'' @ map (digit_char \<circ> digit_val) ds"

fun frac_value :: "digit list \<Rightarrow> rat" where
  "frac_value [] = 0"
| "frac_value (d # ds) = (of_nat (digit_val d) + frac_value ds) / 10"

definition float_value :: "bool \<Rightarrow> nat \<Rightarrow> digit list \<Rightarrow> rat" where
  "float_value neg whole ds =
     (if neg then - (of_nat whole + frac_value ds) else of_nat whole + frac_value ds)"

section \<open>Unit conversion\<close>

text \<open>\<open>return 9 / 5 * temp_C + 32\<close>\<close>

definition convert_to_fahr :: "rat \<Rightarrow> rat" where
  "convert_to_fahr temp_C = 9 / 5 * temp_C + 32"

section \<open>The collaborators\<close>

text \<open>
  What the program receives from outside is a parameter of the model:
  \<^item> \<open>ip_api\<close>: the JSON body of \<open>GET http://ip-api.com/json/{ip_address}\<close>;
  \<^item> \<open>met_no\<close>: the JSON body of the forecast request for a latitude and a longitude;
  \<^item> \<open>ident_me\<close>: the text of \<open>GET https://ident.me/\<close>;
  \<^item> \<open>repr_container\<close>: Python's \<open>repr\<close> of a list or dictionary;
  \<^item> \<open>to_datetime\<close>: pandas' reading of one index label as a time, with the UTC offset
    the label carries or without one (\<open>None\<close> where pandas raises);
  \<^item> \<open>timezone_rules\<close>: the time zone database (\<open>None\<close> for an unknown zone).

  Times are whole seconds since the epoch; a time zone gives the UTC offset, in seconds,
  in force at an instant. A request that fails in the network is not part of the model.
\<close>

datatype label_time = Naive int | Aware int int

record world =
  ip_api :: "string \<Rightarrow> json"
  met_no :: "json \<Rightarrow> json \<Rightarrow> json"
  ident_me :: string
  repr_container :: "json \<Rightarrow> string"
  to_datetime :: "json \<Rightarrow> label_time option"
  timezone_rules :: "json \<Rightarrow> (int \<Rightarrow> int) option"

section \<open>Strings\<close>

text \<open>\<open>f"{v}"\<close>, which is \<open>str(v)\<close>.\<close>

fun py_str :: "world \<Rightarrow> json \<Rightarrow> string" where
  "py_str W JNone = ''None''"
| "py_str W (JBool b) = (if b then ''True'' else ''False'')"
| "py_str W (JInt i) = show_int i"
| "py_str W (JFloat neg whole ds) = show_float neg whole ds"
| "py_str W (JStr s) = s"
| "py_str W v = repr_container W v"

text \<open>\<open>s.rstrip(chars)\<close> drops the longest suffix made of characters of \<open>chars\<close>.\<close>

definition rstrip :: "string \<Rightarrow> string \<Rightarrow> string" where
  "rstrip s chars = rev (dropWhile (\<lambda>c. c \<in> set chars) (rev s))"

definition degree_sign :: char where
  "degree_sign = CHR 0xB0"

definition char_digit :: "char \<Rightarrow> nat option" where
  "char_digit c =
     map_of [(CHR ''0'', 0), (CHR ''1'', 1), (CHR ''2'', 2), (CHR ''3'', 3), (CHR ''4'', 4),
             (CHR ''5'', 5), (CHR ''6'', 6), (CHR ''7'', 7), (CHR ''8'', 8), (CHR ''9'', 9)] c"

fun digits_value :: "string \<Rightarrow> nat \<Rightarrow> nat option" where
  "digits_value [] acc = Some acc"
| "digits_value (c # cs) acc =
     (case char_digit c of None \<Rightarrow> None | Some d \<Rightarrow> digits_value cs (10 * acc + d))"

fun fraction_value :: "string \<Rightarrow> rat option" where
  "fraction_value [] = Some 0"
| "fraction_value (c # cs) =
     (case char_digit c of
        None \<Rightarrow> None
      | Some d \<Rightarrow>
          (case fraction_value cs of
             None \<Rightarrow> None
           | Some r \<Rightarrow> Some ((of_nat d + r) / 10)))"

text \<open>
  \<open>float(s)\<close> on a string of signs, digits and points: an optional sign, then digits
  with an optional point among them, at least one digit in all; anything else over these
  characters is a \<open>ValueError\<close>. Python also reads surrounding blanks, exponents,
  underscores, \<open>inf\<close> and \<open>nan\<close>: a string with any other character is outside the model.
\<close>

definition split_sign :: "string \<Rightarrow> bool \<times> string" where
  "split_sign s =
     (case s of
        [] \<Rightarrow> (False, s)
      | c # r \<Rightarrow>
          if c = CHR ''-'' then (True, r)
          else if c = CHR ''+'' then (False, r)
          else (False, s))"

definition unsigned_value :: "string \<Rightarrow> rat result" where
  "unsigned_value body =
     (let whole = takeWhile (\<lambda>c. c \<noteq> CHR ''.'') body;
          after = drop 1 (dropWhile (\<lambda>c. c \<noteq> CHR ''.'') body)
      in if whole = [] \<and> after = [] then Inl ValueError
         else
           (case digits_value whole 0 of
              None \<Rightarrow> Inl ValueError
            | Some w \<Rightarrow>
                (case fraction_value after of
                   None \<Rightarrow> Inl ValueError
                 | Some f \<Rightarrow> Inr (of_nat w + f))))"

definition py_float :: "string \<Rightarrow> rat result" where
  "py_float s =
     (if list_ex (\<lambda>c. c \<notin> set (''+-.'' @ digit_chars)) s then Inl Unmodelled
      else
        (case split_sign s of
           (neg, body) \<Rightarrow> and_then (unsigned_value body) (\<lambda>v. Inr (if neg then - v else v))))"

text \<open>
  \<open>f"{x :.0f}"\<close>: the magnitude rounded to the nearest integer, a tie going to the even
  neighbour, behind a minus sign when \<open>x\<close> is negative (also when the digits are \<open>0\<close>).
\<close>

definition round_half_even :: "rat \<Rightarrow> nat" where
  "round_half_even q =
     (let f = nat \<lfloor>q\<rfloor>; r = q - of_int \<lfloor>q\<rfloor>
      in if r < 1 / 2 then f
         else if 1 / 2 < r then f + 1
         else if even f then f else f + 1)"

definition format_0f :: "rat \<Rightarrow> string" where
  "format_0f x = (if x < 0 then ''-'' else '''') @ show_nat (round_half_even \<bar>x\<bar>)"

section \<open>Forecast transform\<close>

fun traverse :: "('a \<Rightarrow> 'b result) \<Rightarrow> 'a list \<Rightarrow> 'b list result" where
  "traverse f [] = Inr []"
| "traverse f (x # xs) =
     and_then (f x) (\<lambda>y. and_then (traverse f xs) (\<lambda>ys. Inr (y # ys)))"

text \<open>
  \<open>get_current_weather\<close>: a dictionary display of six f-strings, its values evaluated in
  order, so the first missing field raises.
\<close>

definition get_current_weather :: "world \<Rightarrow> json \<Rightarrow> (string \<times> string) list result" where
  "get_current_weather W current_weather =
     and_then (subscript current_weather ''air_pressure_at_sea_level'') (\<lambda>p.
     and_then (subscript current_weather ''air_temperature'') (\<lambda>t.
     and_then (subscript current_weather ''cloud_area_fraction'') (\<lambda>c.
     and_then (subscript current_weather ''relative_humidity'') (\<lambda>h.
     and_then (subscript current_weather ''wind_from_direction'') (\<lambda>d.
     and_then (subscript current_weather ''wind_speed'') (\<lambda>s.
       Inr [(''Air pressure'', py_str W p @ ''hPa''),
            (''Air temperature'', py_str W t @ [degree_sign] @ ''C''),
            (''Cloud area fraction'', py_str W c @ ''%''),
            (''Relative humidity'', py_str W h @ ''%''),
            (''Wind direction (from)'', py_str W d @ [degree_sign]),
            (''Wind speed'', py_str W s @ ''m/s'')]))))))"

text \<open>
  \<open>get_weather_icons\<close>: a dictionary comprehension over \<open>[1, 6, 12]\<close> with key
  \<open>f"{time}h"\<close> and value \<open>icon_info[f"next_{time}_hours"]["summary"]["symbol_code"]\<close>.
\<close>

definition icon_for :: "json \<Rightarrow> nat \<Rightarrow> (string \<times> json) result" where
  "icon_for icon_info time =
     and_then (subscript icon_info (''next_'' @ show_nat time @ ''_hours'')) (\<lambda>w.
     and_then (subscript w ''summary'') (\<lambda>s.
     and_then (subscript s ''symbol_code'') (\<lambda>code.
       Inr (show_nat time @ ''h'', code))))"

definition get_weather_icons :: "json \<Rightarrow> (string \<times> json) list result" where
  "get_weather_icons icon_info = traverse (icon_for icon_info) [1, 6, 12]"

text \<open>
  Iterating a value in a comprehension: the items of a list, the keys of a dictionary,
  the characters of a string; \<open>TypeError\<close> on anything else.
\<close>

fun iterate :: "json \<Rightarrow> json list result" where
  "iterate (JList xs) = Inr xs"
| "iterate (JDict kvs) = Inr (map (\<lambda>kv. JStr (fst kv)) kvs)"
| "iterate (JStr s) = Inr (map (\<lambda>c. JStr [c]) s)"
| "iterate _ = Inl TypeError"

text \<open>
  A pandas \<open>DatetimeIndex\<close> is either naive (wall-clock times, no zone) or aware (UTC
  instants with a zone). \<open>pd.to_datetime\<close> reads every label; labels that all carry the
  same UTC offset give an aware index, labels without any offset (and so the empty list of
  labels) give a naive one, and a mixture is refused. \<open>tz_convert\<close> keeps the instants of
  an aware index and attaches the new zone; on a naive index it raises \<open>TypeError\<close>.
  The time zone is looked up before the index is examined.
\<close>

datatype dt_index = NaiveIndex "int list" | AwareIndex "int list"

record stamp =
  utc :: int
  utcoffset :: int

fun is_naive :: "label_time \<Rightarrow> bool" where
  "is_naive (Naive t) = True"
| "is_naive (Aware t off) = False"

fun clock :: "label_time \<Rightarrow> int" where
  "clock (Naive t) = t"
| "clock (Aware t off) = t"

fun offset_of :: "label_time \<Rightarrow> int option" where
  "offset_of (Naive t) = None"
| "offset_of (Aware t off) = Some off"

definition pd_to_datetime :: "world \<Rightarrow> json list \<Rightarrow> dt_index result" where
  "pd_to_datetime W labels =
     and_then
       (traverse (\<lambda>l. case to_datetime W l of None \<Rightarrow> Inl ValueError | Some t \<Rightarrow> Inr t) labels)
       (\<lambda>ts. if list_all is_naive ts then Inr (NaiveIndex (map clock ts))
              else if list_all (\<lambda>t. offset_of t = offset_of (hd ts)) ts
                   then Inr (AwareIndex (map clock ts))
              else Inl ValueError)"

fun tz_convert :: "world \<Rightarrow> dt_index \<Rightarrow> json \<Rightarrow> stamp list result" where
  "tz_convert W idx timezone =
     (case timezone_rules W timezone of
        None \<Rightarrow> Inl UnknownTimeZoneError
      | Some tz \<Rightarrow>
          (case idx of
             NaiveIndex ts \<Rightarrow> Inl TypeError
           | AwareIndex ts \<Rightarrow> Inr (map (\<lambda>t. \<lparr>utc = t, utcoffset = tz t\<rparr>) ts)))"

text \<open>
  \<open>get_temperature_time_series\<close>: the two comprehensions run one after the other, then the
  series is built and its index converted. A series is the list of its (index, value)
  rows.
\<close>

definition entry_temperature :: "json \<Rightarrow> json result" where
  "entry_temperature entry =
     and_then (subscript entry ''data'') (\<lambda>d.
     and_then (subscript d ''instant'') (\<lambda>i.
     and_then (subscript i ''details'') (\<lambda>det.
       subscript det ''air_temperature'')))"

definition get_temperature_time_series :: "world \<Rightarrow> json \<Rightarrow> json \<Rightarrow> (stamp \<times> json) list result" where
  "get_temperature_time_series W weather_info timezone =
     and_then (iterate weather_info) (\<lambda>entries.
     and_then (traverse (\<lambda>entry. subscript entry ''time'') entries) (\<lambda>time_info.
     and_then (traverse entry_temperature entries) (\<lambda>temp_info.
     and_then (pd_to_datetime W time_info) (\<lambda>idx.
     and_then (tz_convert W idx timezone) (\<lambda>stamps.
       Inr (zip stamps temp_info))))))"

section \<open>Chart data\<close>

text \<open>
  \<open>plot_forecast\<close> draws two figures; the model returns what they draw: the first 24
  rows, and the rows resampled by calendar day of the index's zone with the maximum and
  the minimum of each day. \<open>resample("1D")\<close> makes one bucket for every day from the day
  of the earliest row to the day of the latest, an empty one (\<open>None\<close>, pandas' NaN) for a
  day without rows. A day is numbered by its distance from the epoch. Readings are
  numbers; what pandas does with other readings is outside the model.
\<close>

fun num_of :: "json \<Rightarrow> rat result" where
  "num_of (JInt i) = Inr (of_int i)"
| "num_of (JFloat neg whole ds) = Inr (float_value neg whole ds)"
| "num_of _ = Inl Unmodelled"

definition local_day :: "stamp \<Rightarrow> int" where
  "local_day s = (utc s + utcoffset s) div 86400"

definition agg_max_min :: "rat list \<Rightarrow> (rat \<times> rat) option" where
  "agg_max_min vs = (case vs of [] \<Rightarrow> None | v # r \<Rightarrow> Some (fold max r v, fold min r v))"

definition resample_1D :: "(stamp \<times> rat) list \<Rightarrow> (int \<times> (rat \<times> rat) option) list" where
  "resample_1D rows =
     (case map (local_day \<circ> fst) rows of
        [] \<Rightarrow> []
      | d # ds \<Rightarrow>
          map (\<lambda>day. (day, agg_max_min (map snd (filter (\<lambda>row. local_day (fst row) = day) rows))))
              [fold min ds d .. fold max ds d])"

definition plot_forecast ::
    "(stamp \<times> json) list \<Rightarrow> ((stamp \<times> json) list \<times> (int \<times> (rat \<times> rat) option) list) result" where
  "plot_forecast temp_data =
     (let temp24H = take 24 temp_data
      in and_then (traverse (\<lambda>row. and_then (num_of (snd row)) (\<lambda>v. Inr (fst row, v))) temp_data)
           (\<lambda>rows. Inr (temp24H, resample_1D rows)))"

section \<open>Requests\<close>

text \<open>\<open>get_location\<close> keeps five keys of the geolocation reply.\<close>

definition get_location :: "world \<Rightarrow> string \<Rightarrow> json result" where
  "get_location W ip_address =
     (let location_info = ip_api W ip_address
      in and_then
           (traverse (\<lambda>key. and_then (subscript location_info key) (\<lambda>v. Inr (key, v)))
              [''city'', ''country'', ''lat'', ''lon'', ''timezone''])
           (\<lambda>kvs. Inr (JDict kvs)))"

record weather_info =
  current_weather :: "(string \<times> string) list"
  weather_icons :: "(string \<times> json) list"
  temp_time_series :: "(stamp \<times> json) list"

definition get_weather_info :: "world \<Rightarrow> json \<Rightarrow> json \<Rightarrow> json \<Rightarrow> weather_info result" where
  "get_weather_info W lat lon timezone =
     and_then (subscript (met_no W lat lon) ''properties'') (\<lambda>props.
     and_then (subscript props ''timeseries'') (\<lambda>raw_data.
     and_then (first_item raw_data) (\<lambda>e0.
     and_then (subscript e0 ''data'') (\<lambda>d0.
     and_then (subscript d0 ''instant'') (\<lambda>i0.
     and_then (subscript i0 ''details'') (\<lambda>det0.
     and_then (get_current_weather W det0) (\<lambda>cw.
     and_then (first_item raw_data) (\<lambda>e1.
     and_then (subscript e1 ''data'') (\<lambda>d1.
     and_then (get_weather_icons d1) (\<lambda>icons.
     and_then (get_temperature_time_series W raw_data timezone) (\<lambda>series.
       Inr \<lparr>current_weather = cw, weather_icons = icons, temp_time_series = series\<rparr>)))))))))))"

record forecast =
  graphs :: "(stamp \<times> json) list \<times> (int \<times> (rat \<times> rat) option) list"
  headline :: string
  ip_address :: string
  data :: weather_info

definition lookup :: "(string \<times> 'a) list \<Rightarrow> string \<Rightarrow> 'a result" where
  "lookup kvs k = (case map_of kvs k of None \<Rightarrow> Inl (KeyError k) | Some v \<Rightarrow> Inr v)"

text \<open>
  \<open>temp_C = float(weather_info["current_weather"]["Air temperature"].rstrip("\<degree>C"))\<close>
\<close>

definition current_temp_C :: "weather_info \<Rightarrow> rat result" where
  "current_temp_C info =
     and_then (lookup (current_weather info) ''Air temperature'') (\<lambda>text.
       py_float (rstrip text [degree_sign, CHR ''C'']))"

definition process_weather_forecast :: "world \<Rightarrow> string \<Rightarrow> forecast result" where
  "process_weather_forecast W ip =
     and_then (get_location W ip) (\<lambda>location.
     and_then (subscript location ''lat'') (\<lambda>lat.
     and_then (subscript location ''lon'') (\<lambda>lon.
     and_then (subscript location ''timezone'') (\<lambda>timezone.
     and_then (get_weather_info W lat lon timezone) (\<lambda>info.
     and_then (current_temp_C info) (\<lambda>temp_C.
     let temp_F = convert_to_fahr temp_C in
     and_then (plot_forecast (temp_time_series info)) (\<lambda>g.
     and_then (subscript location ''city'') (\<lambda>city.
     and_then (subscript location ''country'') (\<lambda>country.
       Inr \<lparr>graphs = g,
            headline =
              ''It's '' @ format_0f temp_C @ [degree_sign] @ ''C (''
              @ format_0f temp_F @ [degree_sign] @ ''F) in '' @ py_str W city @ '', ''
              @ py_str W country @ '' right now.'',
            ip_address = ip,
            data = info\<rparr>)))))))))"

text \<open>
  \<open>main\<close>: the address comes from the \<open>X-Forwarded-For\<close> header when \<open>DEPLOY\<close> is
  \<open>heroku\<close>, from the probe service otherwise. The header is read from the WSGI
  environment, where it is \<open>HTTP_X_FORWARDED_FOR\<close>; the page is rendered from the
  forecast, which is what the model returns.
\<close>

definition request_ip_address :: "world \<Rightarrow> string option \<Rightarrow> (string \<times> string) list \<Rightarrow> string result" where
  "request_ip_address W DEPLOY environ =
     (if DEPLOY = Some ''heroku'' then
        (case map_of environ ''HTTP_X_FORWARDED_FOR'' of
           None \<Rightarrow> Inl (KeyError ''X-Forwarded-For'')
         | Some v \<Rightarrow> Inr v)
      else Inr (ident_me W))"

definition main :: "world \<Rightarrow> string option \<Rightarrow> (string \<times> string) list \<Rightarrow> forecast result" where
  "main W DEPLOY environ =
     and_then (request_ip_address W DEPLOY environ) (process_weather_forecast W)"

section \<open>Notions of the specification\<close>

text \<open>
  The raw \<open>air_temperature\<close> field of the first forecast entry of a forecast reply, and
  the same for the request of an address: the reading the headline starts from.
\<close>

definition first_air_temperature :: "json \<Rightarrow> json result" where
  "first_air_temperature reply =
     and_then (subscript reply ''properties'') (\<lambda>props.
     and_then (subscript props ''timeseries'') (\<lambda>raw_data.
     and_then (first_item raw_data) entry_temperature))"

definition current_reading :: "world \<Rightarrow> string \<Rightarrow> json result" where
  "current_reading W ip =
     and_then (subscript (ip_api W ip) ''lat'') (\<lambda>lat.
     and_then (subscript (ip_api W ip) ''lon'') (\<lambda>lon.
       first_air_temperature (met_no W lat lon)))"

text \<open>The symbolic code of one summary window of an entry's \<open>data\<close> block.\<close>

definition window_code :: "json \<Rightarrow> string \<Rightarrow> json result" where
  "window_code icon_info key =
     and_then (subscript icon_info key) (\<lambda>w.
     and_then (subscript w ''summary'') (\<lambda>s.
       subscript s ''symbol_code''))"

section \<open>A fixture\<close>

text \<open>
  A forecast entry as the weather service sends it, and a world that answers every
  request with Oslo and a two-hour forecast whose first reading is 14.6 degrees.
\<close>

definition details_block :: "json \<Rightarrow> json" where
  "details_block temperature =
     JDict [(''air_pressure_at_sea_level'', JInt 1013),
            (''air_temperature'', temperature),
            (''cloud_area_fraction'', JInt 50),
            (''relative_humidity'', JInt 80),
            (''wind_from_direction'', JInt 270),
            (''wind_speed'', JInt 3)]"

definition summary_window :: "string \<Rightarrow> json" where
  "summary_window code = JDict [(''summary'', JDict [(''symbol_code'', JStr code)])]"

definition forecast_entry :: "string \<Rightarrow> json \<Rightarrow> json" where
  "forecast_entry time temperature =
     JDict [(''time'', JStr time),
            (''data'',
               JDict [(''instant'', JDict [(''details'', details_block temperature)]),
                      (''next_12_hours'', summary_window ''cloudy''),
                      (''next_1_hours'', summary_window ''rain''),
                      (''next_6_hours'', summary_window ''lightrain'')])]"

definition example_entries :: "json list" where
  "example_entries =
     [forecast_entry ''2021-03-01T12:00:00Z'' (JFloat False 14 [D6]),
      forecast_entry ''2021-03-01T13:00:00Z'' (JInt 15)]"

definition example_world :: world where
  "example_world =
     \<lparr>ip_api = (\<lambda>ip.
        JDict [(''status'', JStr ''success''),
               (''city'', JStr ''Oslo''),
               (''country'', JStr ''Norway''),
               (''lat'', JFloat False 59 [D9]),
               (''lon'', JFloat False 10 [D7]),
               (''timezone'', JStr ''Europe/Oslo'')]),
      met_no = (\<lambda>lat lon.
        JDict [(''type'', JStr ''Feature''),
               (''properties'', JDict [(''timeseries'', JList example_entries)])]),
      ident_me = ''192.0.2.1'',
      repr_container = (\<lambda>v. ''...''),
      to_datetime = (\<lambda>label.
        if label = JStr ''2021-03-01T12:00:00Z'' then Some (Aware 1614600000 0)
        else if label = JStr ''2021-03-01T13:00:00Z'' then Some (Aware 1614603600 0)
        else None),
      timezone_rules = (\<lambda>name.
        if name = JStr ''UTC'' then Some (\<lambda>t. 0)
        else if name = JStr ''Europe/Oslo'' then Some (\<lambda>t. 3600)
        else None)\<rparr>"


text \<open>
  Rounding to the nearest integer, as \<open>.0f\<close> does it: \<open>n\<close> is nearest to \<open>x\<close> when it is
  within a half of it, and even when exactly a half away. The text of the rounded value
  is the integer's numeral, except that a negative value that rounds to zero keeps its
  sign (\<open>-0\<close>).
\<close>

definition nearest_integer :: "rat \<Rightarrow> int \<Rightarrow> bool" where
  "nearest_integer x n \<longleftrightarrow> \<bar>x - of_int n\<bar> < 1 / 2 \<or> (\<bar>x - of_int n\<bar> = 1 / 2 \<and> even n)"


text \<open>
  A forecast entry that can become a row of the series: its \<open>time\<close> label is read as a
  time with the UTC offset \<open>off\<close>, and it has an instantaneous air temperature.
\<close>

definition timed_entry :: "world \<Rightarrow> int \<Rightarrow> json \<Rightarrow> bool" where
  "timed_entry W off entry =
     ((case subscript entry ''time'' of
         Inl e \<Rightarrow> False
       | Inr label \<Rightarrow>
           (case to_datetime W label of
              None \<Rightarrow> False
            | Some (Naive t) \<Rightarrow> False
            | Some (Aware t off') \<Rightarrow> off' = off))
      \<and> \<not> isl (entry_temperature entry))"

text \<open>
  An hourly series in UTC that starts at the instant \<open>start\<close>, and the numeric readings of
  the rows of a series that fall on a calendar day of the series' zone.
\<close>

fun hourly_rows :: "int \<Rightarrow> 'a list \<Rightarrow> (stamp \<times> 'a) list" where
  "hourly_rows start [] = []"
| "hourly_rows start (v # vs) = (\<lparr>utc = start, utcoffset = 0\<rparr>, v) # hourly_rows (start + 3600) vs"

definition readings_on :: "int \<Rightarrow> (stamp \<times> json) list \<Rightarrow> rat list" where
  "readings_on day temp_data =
     concat (map (\<lambda>row. case num_of (snd row) of Inl e \<Rightarrow> [] | Inr x \<Rightarrow> [x])
                 (filter (\<lambda>row. local_day (fst row) = day) temp_data))"

text \<open>Twenty-six hourly readings, for a series of a day and two hours.\<close>

definition example_readings :: "json list" where
  "example_readings =
     map JInt [3, 2, 2, 1, 1, 0, 0, 1, 2, 4, 5, 6, 7, 8, 8, 8, 7, 6, 5, 4, 4, 3, 3, 2, 2, 1]"

section \<open>Numerals are read back\<close>

lemma char_digit_digit_char: "n < 10 \<Longrightarrow> char_digit (digit_char n) = Some n"
proof -
  assume "n < 10"
  then consider "n = 0" | "n = 1" | "n = 2" | "n = 3" | "n = 4"
    | "n = 5" | "n = 6" | "n = 7" | "n = 8" | "n = 9"
    by atomize_elim arith
  then show ?thesis
    by cases (simp_all add: char_digit_def digit_char_def digit_chars_def)
qed

lemma digit_char_in_digits: "digit_char n \<in> set digit_chars"
proof -
  have "n mod 10 < length digit_chars"
    by (simp add: digit_chars_def)
  then show ?thesis
    unfolding digit_char_def by (rule nth_mem)
qed

lemma digits_value_append:
  "digits_value (s @ t) acc =
     (case digits_value s acc of None \<Rightarrow> None | Some a \<Rightarrow> digits_value t a)"
  by (induction s arbitrary: acc) (auto split: option.splits)

lemma digits_value_show_nat: "digits_value (show_nat n) 0 = Some n"
proof (induction n rule: show_nat.induct)
  case (1 n)
  show ?case
  proof (cases "n < 10")
    case True
    then show ?thesis
      by (simp add: show_nat.simps [of n] char_digit_digit_char)
  next
    case False
    have "n mod 10 < 10" by simp
    then have d: "char_digit (digit_char (n mod 10)) = Some (n mod 10)"
      by (rule char_digit_digit_char)
    from False 1 have ih: "digits_value (show_nat (n div 10)) 0 = Some (n div 10)"
      by simp
    from False show ?thesis
      by (simp add: show_nat.simps [of n] digits_value_append ih d)
  qed
qed

lemma set_show_nat: "set (show_nat n) \<subseteq> set digit_chars"
proof (induction n rule: show_nat.induct)
  case (1 n)
  show ?case
  proof (cases "n < 10")
    case True
    then show ?thesis
      using digit_char_in_digits [of n] by (simp add: show_nat.simps [of n])
  next
    case False
    with 1 have "set (show_nat (n div 10)) \<subseteq> set digit_chars" by simp
    with False show ?thesis
      using digit_char_in_digits [of "n mod 10"] by (simp add: show_nat.simps [of n])
  qed
qed

lemma show_nat_not_Nil: "show_nat n \<noteq> []"
  by (subst show_nat.simps) simp

lemma fraction_value_digits:
  "fraction_value (map (digit_char \<circ> digit_val) ds) = Some (frac_value ds)"
proof (induction ds)
  case Nil
  show ?case by simp
next
  case (Cons d ds)
  have "digit_val d < 10" by (cases d) simp_all
  then have "char_digit (digit_char (digit_val d)) = Some (digit_val d)"
    by (rule char_digit_digit_char)
  with Cons show ?case by simp
qed

lemma digit_chars_plain:
  "CHR ''.'' \<notin> set digit_chars" "CHR ''-'' \<notin> set digit_chars" "CHR ''+'' \<notin> set digit_chars"
  "CHR ''C'' \<notin> set digit_chars" "degree_sign \<notin> set digit_chars"
  by (simp_all add: digit_chars_def degree_sign_def)

lemma show_nat_chars: "c \<in> set (show_nat n) \<Longrightarrow> c \<in> set digit_chars"
  using set_show_nat [of n] by blast

lemma no_point_show_nat: "c \<in> set (show_nat n) \<Longrightarrow> c \<noteq> CHR ''.''"
  using show_nat_chars digit_chars_plain(1) by blast

lemma split_sign_show_nat: "split_sign (show_nat n @ r) = (False, show_nat n @ r)"
proof -
  obtain c cs where s: "show_nat n = c # cs"
    using show_nat_not_Nil [of n] by (cases "show_nat n") auto
  then have "c \<in> set digit_chars"
    using show_nat_chars [of c n] by simp
  then have "c \<noteq> CHR ''-''" "c \<noteq> CHR ''+''"
    using digit_chars_plain by blast+
  with s show ?thesis by (simp add: split_sign_def)
qed

lemma unsigned_value_whole: "unsigned_value (show_nat n) = Inr (of_nat n)"
proof -
  have t: "takeWhile (\<lambda>c. c \<noteq> CHR ''.'') (show_nat n) = show_nat n"
    using no_point_show_nat [of _ n] by (simp add: takeWhile_eq_all_conv)
  have d: "dropWhile (\<lambda>c. c \<noteq> CHR ''.'') (show_nat n) = []"
    using no_point_show_nat [of _ n] by (simp add: dropWhile_eq_Nil_conv)
  show ?thesis
    unfolding unsigned_value_def t d Let_def
    by (simp add: show_nat_not_Nil digits_value_show_nat)
qed

lemma unsigned_value_point:
  "unsigned_value (show_nat n @ CHR ''.'' # map (digit_char \<circ> digit_val) ds)
     = Inr (of_nat n + frac_value ds)"
proof -
  let ?f = "map (digit_char \<circ> digit_val) ds"
  have "takeWhile (\<lambda>c. c \<noteq> CHR ''.'') (show_nat n @ CHR ''.'' # ?f)
          = show_nat n @ takeWhile (\<lambda>c. c \<noteq> CHR ''.'') (CHR ''.'' # ?f)"
    by (rule takeWhile_append2) (rule no_point_show_nat)
  then have t: "takeWhile (\<lambda>c. c \<noteq> CHR ''.'') (show_nat n @ CHR ''.'' # ?f) = show_nat n"
    by simp
  have "dropWhile (\<lambda>c. c \<noteq> CHR ''.'') (show_nat n @ CHR ''.'' # ?f)
          = dropWhile (\<lambda>c. c \<noteq> CHR ''.'') (CHR ''.'' # ?f)"
    by (rule dropWhile_append2) (rule no_point_show_nat)
  then have d: "drop 1 (dropWhile (\<lambda>c. c \<noteq> CHR ''.'') (show_nat n @ CHR ''.'' # ?f)) = ?f"
    by simp
  show ?thesis
    unfolding unsigned_value_def t d Let_def
    by (simp add: show_nat_not_Nil digits_value_show_nat fraction_value_digits del: map_map)
qed

lemma allowed_show_nat: "\<not> list_ex (\<lambda>c. c \<notin> set (''+-.'' @ digit_chars)) (show_nat n)"
  using show_nat_chars [of _ n] by (simp add: list_ex_iff)

lemma allowed_digits:
  "\<not> list_ex (\<lambda>c. c \<notin> set (''+-.'' @ digit_chars)) (map (digit_char \<circ> digit_val) ds)"
  using digit_char_in_digits by (simp add: list_ex_iff)

lemma py_float_show_int: "py_float (show_int i) = Inr (of_int i)"
proof (cases "i < 0")
  case True
  have "split_sign (CHR ''-'' # show_nat (nat (- i))) = (True, show_nat (nat (- i)))"
    by (simp add: split_sign_def)
  with True show ?thesis
    using allowed_show_nat [of "nat (- i)"]
    by (simp add: py_float_def show_int_def unsigned_value_whole and_then_def)
next
  case False
  then show ?thesis
    using allowed_show_nat [of "nat i"] split_sign_show_nat [of "nat i" "[]"]
    by (simp add: py_float_def show_int_def unsigned_value_whole and_then_def)
qed

lemma py_float_show_float:
  "py_float (show_float neg whole ds) = Inr (float_value neg whole ds)"
proof (cases neg)
  case True
  have "split_sign (CHR ''-'' # show_nat whole @ CHR ''.'' # map (digit_char \<circ> digit_val) ds)
          = (True, show_nat whole @ CHR ''.'' # map (digit_char \<circ> digit_val) ds)"
    by (simp add: split_sign_def)
  with True show ?thesis
    using allowed_show_nat [of whole] allowed_digits [of ds]
    by (simp add: py_float_def show_float_def float_value_def unsigned_value_point and_then_def
          del: map_map)
next
  case False
  then show ?thesis
    using allowed_show_nat [of whole] allowed_digits [of ds]
      split_sign_show_nat [of whole "CHR ''.'' # map (digit_char \<circ> digit_val) ds"]
    by (simp add: py_float_def show_float_def float_value_def unsigned_value_point and_then_def
          del: map_map)
qed

lemma rstrip_suffix:
  assumes "\<And>c. c \<in> set s \<Longrightarrow> c \<notin> set chars" and "\<And>c. c \<in> set t \<Longrightarrow> c \<in> set chars"
  shows "rstrip (s @ t) chars = s"
proof -
  have "dropWhile (\<lambda>c. c \<in> set chars) (rev t @ rev s) = dropWhile (\<lambda>c. c \<in> set chars) (rev s)"
    by (rule dropWhile_append2) (simp add: assms(2))
  moreover have "dropWhile (\<lambda>c. c \<in> set chars) (rev s) = rev s"
    using assms(1) by (cases "rev s") (auto simp: dropWhile_eq_self_iff)
  ultimately show ?thesis
    by (simp add: rstrip_def)
qed

lemma numeral_chars:
  assumes "num_of t = Inr x" and "c \<in> set (py_str W t)"
  shows "c \<notin> set [degree_sign, CHR ''C'']"
proof -
  have plain: "c \<in> set digit_chars \<or> c = CHR ''-'' \<or> c = CHR ''.''"
  proof (cases t)
    case (JInt i)
    with assms(2) show ?thesis
      using show_nat_chars [of c] by (auto simp: show_int_def split: if_splits)
  next
    case (JFloat neg whole ds)
    with assms(2) show ?thesis
      using show_nat_chars [of c] digit_char_in_digits
      by (auto simp: show_float_def split: if_splits)
  qed (use assms(1) in simp_all)
  then show ?thesis
    using digit_chars_plain by (auto simp: degree_sign_def)
qed

lemma py_float_py_str:
  assumes "num_of t = Inr x"
  shows "py_float (py_str W t) = Inr x"
  using assms by (cases t) (simp_all add: py_float_show_int py_float_show_float)

lemma celsius_text_read_back:
  assumes "num_of t = Inr x"
  shows "py_float (rstrip (py_str W t @ [degree_sign] @ ''C'') [degree_sign, CHR ''C'']) = Inr x"
proof -
  have "rstrip (py_str W t @ ([degree_sign] @ ''C'')) [degree_sign, CHR ''C''] = py_str W t"
    by (rule rstrip_suffix) (use numeral_chars [OF assms] in auto)
  then show ?thesis
    using py_float_py_str [OF assms] by simp
qed

section \<open>The current temperature\<close>

lemma and_then_Inr_iff: "and_then r f = Inr y \<longleftrightarrow> (\<exists>v. r = Inr v \<and> f v = Inr y)"
  by (cases r) (simp_all add: and_then_def)

lemma and_then_Inr [simp]: "and_then (Inr v) f = f v"
  by (simp add: and_then_def)

lemma and_then_Inl [simp]: "and_then (Inl e) f = Inl e"
  by (simp add: and_then_def)

lemma current_weather_temperature:
  assumes "get_current_weather W det = Inr cw"
  shows "\<exists>t. subscript det ''air_temperature'' = Inr t
           \<and> lookup cw ''Air temperature'' = Inr (py_str W t @ [degree_sign] @ ''C'')"
  using assms unfolding get_current_weather_def
  by (auto simp: and_then_Inr_iff lookup_def)

lemma weather_info_temp_C:
  assumes "get_weather_info W lat lon tz = Inr info"
    and "first_air_temperature (met_no W lat lon) = Inr t"
    and "num_of t = Inr x"
  shows "current_temp_C info = Inr x"
proof -
  from assms(1) obtain props raw_data e0 d0 i0 det0 cw where
    p: "subscript (met_no W lat lon) ''properties'' = Inr props"
    and r: "subscript props ''timeseries'' = Inr raw_data"
    and e: "first_item raw_data = Inr e0"
    and d: "subscript e0 ''data'' = Inr d0"
    and i: "subscript d0 ''instant'' = Inr i0"
    and det: "subscript i0 ''details'' = Inr det0"
    and cw: "get_current_weather W det0 = Inr cw"
    and info: "current_weather info = cw"
    unfolding get_weather_info_def by (auto simp: and_then_Inr_iff)
  from assms(2) have "subscript det0 ''air_temperature'' = Inr t"
    by (simp add: first_air_temperature_def entry_temperature_def p r e d i det)
  with current_weather_temperature [OF cw]
  have "lookup cw ''Air temperature'' = Inr (py_str W t @ [degree_sign] @ ''C'')"
    by simp
  then show ?thesis
    using celsius_text_read_back [OF assms(3), of W]
    by (simp add: current_temp_C_def info)
qed

lemma show_nat_small:
  "show_nat (Suc 0) = ''1''" "show_nat 1 = ''1''" "show_nat 6 = ''6''" "show_nat 12 = ''12''"
  by (simp_all add: show_nat.simps digit_char_def digit_chars_def)

lemma example_first_reading:
  "first_air_temperature (met_no example_world lat lon) = Inr (JFloat False 14 [D6])"
  by (simp add: first_air_temperature_def example_world_def example_entries_def
        forecast_entry_def entry_temperature_def details_block_def)


lemma show_nat_fixture:
  "show_nat 1013 = ''1013''" "show_nat 15 = ''15''" "show_nat 50 = ''50''"
  "show_nat 80 = ''80''" "show_nat 270 = ''270''" "show_nat 3 = ''3''"
  by (simp_all add: show_nat.simps digit_char_def digit_chars_def)

section \<open>Weather icons\<close>

lemma icon_for_window_code:
  "icon_for icon_info time =
     and_then (window_code icon_info (''next_'' @ show_nat time @ ''_hours''))
       (\<lambda>code. Inr (show_nat time @ ''h'', code))"
  by (cases "subscript icon_info (''next_'' @ show_nat time @ ''_hours'')")
     (auto simp: icon_for_def window_code_def and_then_def split: sum.splits)

lemma get_weather_icons_unfold:
  "get_weather_icons icon_info =
     and_then (window_code icon_info ''next_1_hours'') (\<lambda>c1.
     and_then (window_code icon_info ''next_6_hours'') (\<lambda>c6.
     and_then (window_code icon_info ''next_12_hours'') (\<lambda>c12.
       Inr [(''1h'', c1), (''6h'', c6), (''12h'', c12)])))"
  by (auto simp: get_weather_icons_def icon_for_window_code show_nat_small and_then_def
        split: sum.splits)

lemma window_code_error:
  "window_code icon_info key = Inl e \<Longrightarrow> e = TypeError \<or> (\<exists>k. e = KeyError k)"
proof -
  have sub: "\<And>v k e. subscript v k = Inl e \<Longrightarrow> e = TypeError \<or> e = KeyError k"
    subgoal for v k e by (cases v) (auto split: option.splits)
    done
  assume "window_code icon_info key = Inl e"
  then show ?thesis
    unfolding window_code_def and_then_def
    by (auto split: sum.splits dest: sub)
qed

lemma window_code_absent:
  "map_of kvs key = None \<Longrightarrow> window_code (JDict kvs) key = Inl (KeyError key)"
  by (simp add: window_code_def)

section \<open>The headline\<close>

lemma get_location_Inr:
  assumes "get_location W ip = Inr location"
  shows "\<exists>ci co la lo tz.
           subscript (ip_api W ip) ''city'' = Inr ci
         \<and> subscript (ip_api W ip) ''country'' = Inr co
         \<and> subscript (ip_api W ip) ''lat'' = Inr la
         \<and> subscript (ip_api W ip) ''lon'' = Inr lo
         \<and> subscript (ip_api W ip) ''timezone'' = Inr tz
         \<and> location = JDict [(''city'', ci), (''country'', co), (''lat'', la), (''lon'', lo),
                              (''timezone'', tz)]"
  using assms unfolding get_location_def Let_def
  by (auto simp: and_then_Inr_iff)

lemma process_headline:
  assumes "process_weather_forecast W ip = Inr fc"
    and "current_reading W ip = Inr t"
    and "num_of t = Inr c"
    and "subscript (ip_api W ip) ''city'' = Inr city"
    and "subscript (ip_api W ip) ''country'' = Inr country"
  shows "headline fc =
           ''It's '' @ format_0f c @ [degree_sign] @ ''C ('' @ format_0f (convert_to_fahr c)
           @ [degree_sign] @ ''F) in '' @ py_str W city @ '', '' @ py_str W country
           @ '' right now.''"
proof -
  from assms(1) obtain location where loc: "get_location W ip = Inr location"
    unfolding process_weather_forecast_def by (auto simp: and_then_Inr_iff)
  from get_location_Inr [OF loc] assms(4,5) obtain la lo tz where
    la: "subscript (ip_api W ip) ''lat'' = Inr la"
    and lo: "subscript (ip_api W ip) ''lon'' = Inr lo"
    and location: "location = JDict [(''city'', city), (''country'', country), (''lat'', la),
                      (''lon'', lo), (''timezone'', tz)]"
    by auto
  have sub: "subscript location ''lat'' = Inr la" "subscript location ''lon'' = Inr lo"
    "subscript location ''timezone'' = Inr tz" "subscript location ''city'' = Inr city"
    "subscript location ''country'' = Inr country"
    by (simp_all add: location)
  from assms(1) obtain info temp_C where
    info: "get_weather_info W la lo tz = Inr info"
    and temp: "current_temp_C info = Inr temp_C"
    and h: "headline fc =
           ''It's '' @ format_0f temp_C @ [degree_sign] @ ''C ('' @ format_0f (convert_to_fahr temp_C)
           @ [degree_sign] @ ''F) in '' @ py_str W city @ '', '' @ py_str W country
           @ '' right now.''"
    unfolding process_weather_forecast_def loc and_then_Inr sub Let_def
    by (auto simp: and_then_Inr_iff)
  from assms(2) have "first_air_temperature (met_no W la lo) = Inr t"
    by (simp add: current_reading_def la lo)
  from weather_info_temp_C [OF info this assms(3)] temp have "temp_C = c"
    by simp
  with h show ?thesis by simp
qed

lemma round_14_6:
  "round_half_even \<bar>73 / 5\<bar> = 15" "round_half_even \<bar>convert_to_fahr (73 / 5)\<bar> = 58"
  by code_simp+

lemma show_nat_15_58: "show_nat 15 = ''15''" "show_nat 58 = ''58''"
  by (simp_all add: show_nat.simps digit_char_def digit_chars_def)

lemma format_0f_14_6:
  "format_0f (73 / 5) = ''15''" "format_0f (convert_to_fahr (73 / 5)) = ''58''"
  unfolding format_0f_def round_14_6 show_nat_15_58
  by (simp_all add: convert_to_fahr_def)

lemma not_59:
  "\<not> sublist (''59'' @ [degree_sign] @ ''F'')
         (''It's 15'' @ [degree_sign] @ ''C (58'' @ [degree_sign]
          @ ''F) in Oslo, Norway right now.'')"
    by (simp add: sublist_code degree_sign_def)

lemma example_forecast_ok: "\<not> isl (process_weather_forecast example_world ''192.0.2.1'')"
  by code_simp

lemma example_headline:
  "map_sum id headline (process_weather_forecast example_world ''192.0.2.1'')
     = Inr (''It's 15'' @ [degree_sign] @ ''C (58'' @ [degree_sign]
            @ ''F) in Oslo, Norway right now.'')"
  by code_simp

lemma example_current_reading:
  "current_reading example_world ip = Inr (JFloat False 14 [D6])"
  by (simp add: current_reading_def example_first_reading) (simp add: example_world_def)


section \<open>Rounding for display\<close>





text \<open>The nearest integer, with ties to the even one, is unique.\<close>

lemma nearest_integer_unique:
  assumes "nearest_integer x n" and "nearest_integer x m"
  shows "n = m"
proof (rule ccontr)
  assume ne: "n \<noteq> m"
  have dn: "\<bar>x - of_int n\<bar> \<le> 1 / 2" and dm: "\<bar>x - of_int m\<bar> \<le> 1 / 2"
    using assms by (auto simp: nearest_integer_def)
  have "\<bar>(of_int n :: rat) - of_int m\<bar> \<le> \<bar>x - of_int n\<bar> + \<bar>x - of_int m\<bar>"
    by linarith
  with dn dm have "\<bar>(of_int (n - m) :: rat)\<bar> \<le> 1" by simp
  then have "\<bar>n - m\<bar> \<le> 1"
    by (metis of_int_abs of_int_le_1_iff)
  with ne have one: "\<bar>n - m\<bar> = 1" by linarith
  then have "\<bar>(of_int n :: rat) - of_int m\<bar> = 1"
    by (metis of_int_abs of_int_1 of_int_diff)
  then have "\<bar>x - of_int n\<bar> + \<bar>x - of_int m\<bar> \<ge> 1" by linarith
  with dn dm have "\<bar>x - of_int n\<bar> = 1 / 2" "\<bar>x - of_int m\<bar> = 1 / 2" by linarith+
  with assms have "even n" "even m" by (auto simp: nearest_integer_def)
  with one show False by presburger
qed

section \<open>The temperature series\<close>

lemma traverse_Inr_iff:
  "traverse f xs = Inr ys \<longleftrightarrow> list_all2 (\<lambda>x y. f x = Inr y) xs ys"
proof (induction xs arbitrary: ys)
  case Nil
  show ?case by auto
next
  case (Cons x xs)
  show ?case
    by (cases ys) (auto simp: and_then_Inr_iff Cons.IH)
qed

lemma same_offset_aware:
  assumes "\<not> list_all is_naive ts"
    and "list_all (\<lambda>t. offset_of t = offset_of (hd ts)) ts"
  shows "\<exists>off. \<forall>t \<in> set ts. t = Aware (clock t) off"
proof -
  from assms(1) obtain t0 where t0: "t0 \<in> set ts" "\<not> is_naive t0"
    unfolding list_all_iff by blast
  from t0(2) obtain u0 o0 where a: "t0 = Aware u0 o0"
    by (cases t0) simp_all
  from assms(2) t0(1) have "offset_of t0 = offset_of (hd ts)"
    unfolding list_all_iff by blast
  with a have h: "offset_of (hd ts) = Some o0" by simp
  have "t = Aware (clock t) o0" if "t \<in> set ts" for t
  proof -
    from assms(2) that have "offset_of t = Some o0"
      unfolding list_all_iff h by blast
    then show ?thesis by (cases t) simp_all
  qed
  then show ?thesis by blast
qed

lemma parse_label_Inr:
  "(case to_datetime W l of None \<Rightarrow> Inl ValueError | Some t \<Rightarrow> Inr t) = Inr t
     \<longleftrightarrow> to_datetime W l = Some t"
  by (cases "to_datetime W l") simp_all

lemma pd_to_datetime_Inr:
  assumes "pd_to_datetime W labels = Inr idx"
  shows "\<exists>ts. list_all2 (\<lambda>l t. to_datetime W l = Some t) labels ts
           \<and> idx = (if list_all is_naive ts then NaiveIndex (map clock ts)
                    else AwareIndex (map clock ts))
           \<and> (\<not> list_all is_naive ts \<longrightarrow> list_all (\<lambda>t. offset_of t = offset_of (hd ts)) ts)"
proof -
  from assms obtain ts where
    ts: "traverse (\<lambda>l. case to_datetime W l of None \<Rightarrow> Inl ValueError | Some t \<Rightarrow> Inr t) labels
           = Inr ts"
    and idx: "(if list_all is_naive ts then Inr (NaiveIndex (map clock ts))
              else if list_all (\<lambda>t. offset_of t = offset_of (hd ts)) ts
                   then Inr (AwareIndex (map clock ts))
              else Inl ValueError) = Inr idx"
    unfolding pd_to_datetime_def and_then_Inr_iff by blast
  from ts have "list_all2 (\<lambda>l t. to_datetime W l = Some t) labels ts"
    by (simp add: traverse_Inr_iff parse_label_Inr)
  with idx show ?thesis
    by (intro exI [of _ ts]) (simp split: if_splits)
qed

lemma tz_convert_Inr:
  assumes "tz_convert W idx timezone = Inr stamps"
  shows "\<exists>tz us. timezone_rules W timezone = Some tz \<and> idx = AwareIndex us
           \<and> stamps = map (\<lambda>t. \<lparr>utc = t, utcoffset = tz t\<rparr>) us"
  using assms by (cases "timezone_rules W timezone"; cases idx) simp_all

lemma series_Inr:
  assumes "get_temperature_time_series W (JList entries) timezone = Inr series"
  shows "\<exists>tz labels ts temps off.
           timezone_rules W timezone = Some tz
         \<and> list_all2 (\<lambda>e l. subscript e ''time'' = Inr l) entries labels
         \<and> list_all2 (\<lambda>l t. to_datetime W l = Some t) labels ts
         \<and> (\<forall>t \<in> set ts. t = Aware (clock t) off)
         \<and> list_all2 (\<lambda>e v. entry_temperature e = Inr v) entries temps
         \<and> series = zip (map (\<lambda>t. \<lparr>utc = clock t, utcoffset = tz (clock t)\<rparr>) ts) temps"
proof -
  from assms obtain labels temps idx stamps where
    l: "traverse (\<lambda>entry. subscript entry ''time'') entries = Inr labels"
    and v: "traverse entry_temperature entries = Inr temps"
    and i: "pd_to_datetime W labels = Inr idx"
    and c: "tz_convert W idx timezone = Inr stamps"
    and s: "series = zip stamps temps"
    unfolding get_temperature_time_series_def iterate.simps and_then_Inr and_then_Inr_iff
    by blast
  from tz_convert_Inr [OF c] obtain tz us where
    tz: "timezone_rules W timezone = Some tz" and idx: "idx = AwareIndex us"
    and st: "stamps = map (\<lambda>t. \<lparr>utc = t, utcoffset = tz t\<rparr>) us"
    by blast
  from pd_to_datetime_Inr [OF i] obtain ts where
    ts: "list_all2 (\<lambda>l t. to_datetime W l = Some t) labels ts"
    and k: "idx = (if list_all is_naive ts then NaiveIndex (map clock ts)
                    else AwareIndex (map clock ts))"
    and same: "\<not> list_all is_naive ts \<longrightarrow> list_all (\<lambda>t. offset_of t = offset_of (hd ts)) ts"
    by blast
  from k idx have n: "\<not> list_all is_naive ts" and us: "us = map clock ts"
    by (simp_all split: if_splits)
  from same_offset_aware [OF n] same n obtain off where
    off: "\<forall>t \<in> set ts. t = Aware (clock t) off"
    by blast
  have "stamps = map (\<lambda>t. \<lparr>utc = clock t, utcoffset = tz (clock t)\<rparr>) ts"
    by (simp add: st us)
  with s tz ts off l v show ?thesis
    unfolding traverse_Inr_iff by blast
qed

lemma list_all2_choice:
  "\<forall>x \<in> set xs. \<exists>y. P x y \<Longrightarrow> \<exists>ys. list_all2 P xs ys"
proof (induction xs)
  case Nil
  show ?case by simp
next
  case (Cons x xs)
  then obtain y ys where "P x y" "list_all2 P xs ys" by auto
  then have "list_all2 P (x # xs) (y # ys)" by simp
  then show ?case by blast
qed

lemma timed_entry_parts:
  assumes "timed_entry W off e"
  shows "\<exists>label t v. subscript e ''time'' = Inr label
           \<and> to_datetime W label = Some (Aware t off) \<and> entry_temperature e = Inr v"
proof -
  from assms obtain label where l: "subscript e ''time'' = Inr label"
    unfolding timed_entry_def by (cases "subscript e ''time''") simp_all
  from assms l obtain lt where lt: "to_datetime W label = Some lt"
    unfolding timed_entry_def by (cases "to_datetime W label") simp_all
  from assms l lt obtain t where "lt = Aware t off"
    unfolding timed_entry_def by (cases lt) simp_all
  moreover from assms obtain v where "entry_temperature e = Inr v"
    unfolding timed_entry_def by (cases "entry_temperature e") simp_all
  ultimately show ?thesis using l lt by blast
qed

lemma series_total:
  assumes "entries \<noteq> []"
    and "list_all (timed_entry W off) entries"
    and "timezone_rules W timezone = Some tz"
  shows "\<exists>series. get_temperature_time_series W (JList entries) timezone = Inr series"
proof -
  have each: "\<forall>e \<in> set entries. \<exists>r. subscript e ''time'' = Inr (fst r)
      \<and> to_datetime W (fst r) = Some (Aware (fst (snd r)) off)
      \<and> entry_temperature e = Inr (snd (snd r))"
    using assms(2) timed_entry_parts unfolding list_all_iff by fastforce
  from list_all2_choice [OF each] obtain rs where
    rs: "list_all2 (\<lambda>e r. subscript e ''time'' = Inr (fst r)
      \<and> to_datetime W (fst r) = Some (Aware (fst (snd r)) off)
      \<and> entry_temperature e = Inr (snd (snd r))) entries rs"
    by blast
  define labels where "labels = map fst rs"
  define ts where "ts = map (\<lambda>r. Aware (fst (snd r)) off) rs"
  define temps where "temps = map (\<lambda>r. snd (snd r)) rs"
  have n: "length rs = length entries"
    using rs by (simp add: list_all2_lengthD)
  have l: "traverse (\<lambda>entry. subscript entry ''time'') entries = Inr labels"
    unfolding traverse_Inr_iff labels_def list_all2_conv_all_nth
    using rs n by (simp add: list_all2_conv_all_nth)
  have v: "traverse entry_temperature entries = Inr temps"
    unfolding traverse_Inr_iff temps_def list_all2_conv_all_nth
    using rs n by (simp add: list_all2_conv_all_nth)
  have p: "traverse (\<lambda>l. case to_datetime W l of None \<Rightarrow> Inl ValueError | Some t \<Rightarrow> Inr t) labels
             = Inr ts"
    unfolding traverse_Inr_iff parse_label_Inr labels_def ts_def list_all2_conv_all_nth
    using rs n by (simp add: list_all2_conv_all_nth)
  from assms(1) n have "rs \<noteq> []" by auto
  then obtain r rs' where "rs = r # rs'" by (cases rs) auto
  then have nn: "\<not> list_all is_naive ts" and hd: "offset_of (hd ts) = Some off"
    by (simp_all add: ts_def)
  have same: "list_all (\<lambda>t. offset_of t = offset_of (hd ts)) ts"
    unfolding hd by (simp add: ts_def list_all_iff)
  have i: "pd_to_datetime W labels = Inr (AwareIndex (map clock ts))"
    unfolding pd_to_datetime_def p and_then_Inr using nn same by simp
  show ?thesis
    unfolding get_temperature_time_series_def iterate.simps and_then_Inr l v i
    by (simp add: assms(3))
qed

lemma series_length:
  assumes "get_temperature_time_series W (JList entries) timezone = Inr series"
  shows "length series = length entries"
proof -
  from series_Inr [OF assms] obtain tz labels ts temps where
    l: "list_all2 (\<lambda>e l. subscript e ''time'' = Inr l) entries labels"
    and t: "list_all2 (\<lambda>l t. to_datetime W l = Some t) labels ts"
    and v: "list_all2 (\<lambda>e v. entry_temperature e = Inr v) entries temps"
    and s: "series = zip (map (\<lambda>t. \<lparr>utc = clock t, utcoffset = tz (clock t)\<rparr>) ts) temps"
    by blast
  from list_all2_lengthD [OF l] list_all2_lengthD [OF t] list_all2_lengthD [OF v]
  show ?thesis by (simp add: s)
qed

lemma example_series:
  "get_temperature_time_series example_world (JList example_entries) (JStr ''Europe/Oslo'')
     = Inr [(\<lparr>utc = 1614600000, utcoffset = 3600\<rparr>, JFloat False 14 [D6]),
            (\<lparr>utc = 1614603600, utcoffset = 3600\<rparr>, JInt 15)]"
  by code_simp

lemma example_entries_timed:
  "example_entries \<noteq> []" "list_all (timed_entry example_world 0) example_entries"
  "timezone_rules example_world (JStr ''Europe/Oslo'') \<noteq> None"
  by code_simp+

lemma empty_series:
  "get_temperature_time_series W (JList []) timezone
     = (case timezone_rules W timezone of
          None \<Rightarrow> Inl UnknownTimeZoneError
        | Some tz \<Rightarrow> Inl TypeError)"
  by (simp add: get_temperature_time_series_def pd_to_datetime_def split: option.splits)

section \<open>Day buckets\<close>

lemma fold_max_Max: "fold max xs x = Max (set (x # xs))" for x :: "'a :: linorder"
  by (rule Max.set_eq_fold [symmetric])

lemma fold_min_Min: "fold min xs x = Min (set (x # xs))" for x :: "'a :: linorder"
  by (rule Min.set_eq_fold [symmetric])

lemma agg_max_min_eq:
  "agg_max_min vs = (if vs = [] then None else Some (Max (set vs), Min (set vs)))"
proof (cases vs)
  case Nil
  then show ?thesis by (simp add: agg_max_min_def)
next
  case (Cons v r)
  then show ?thesis
    unfolding agg_max_min_def Cons fold_max_Max fold_min_Min by simp
qed

lemma resample_1D_Nil: "resample_1D [] = []"
  by (simp add: resample_1D_def)

lemma resample_1D_eq:
  assumes "rows \<noteq> []"
  shows "resample_1D rows =
     map (\<lambda>day. (day, agg_max_min (map snd (filter (\<lambda>row. local_day (fst row) = day) rows))))
       [Min (set (map (local_day \<circ> fst) rows)) .. Max (set (map (local_day \<circ> fst) rows))]"
proof -
  from assms obtain r rs where rows: "rows = r # rs" by (cases rows) auto
  show ?thesis
    unfolding resample_1D_def rows list.map list.case fold_max_Max fold_min_Min comp_apply
    by (rule refl)
qed

lemma numeric_rows:
  assumes "traverse (\<lambda>row. and_then (num_of (snd row)) (\<lambda>v. Inr (fst row, v))) temp_data = Inr rows"
  shows "map fst rows = map fst temp_data"
    and "map snd (filter (\<lambda>row. local_day (fst row) = day) rows) = readings_on day temp_data"
  using assms
proof (induction temp_data arbitrary: rows)
  case Nil
  {
    case 1
    then show ?case by simp
  next
    case 2
    then show ?case by (simp add: readings_on_def)
  }
next
  case (Cons row temp_data)
  {
    case 1
    then show ?case using Cons.IH(1)
      by (auto simp: and_then_Inr_iff)
  next
    case 2
    then show ?case using Cons.IH(2) [of _ ]
      by (auto simp: and_then_Inr_iff readings_on_def)
  }
qed

lemma plot_forecast_Inr:
  assumes "plot_forecast temp_data = Inr (temp24H, temp10D)"
  shows "\<exists>rows. traverse (\<lambda>row. and_then (num_of (snd row)) (\<lambda>v. Inr (fst row, v))) temp_data
                  = Inr rows
              \<and> temp24H = take 24 temp_data \<and> temp10D = resample_1D rows"
  using assms unfolding plot_forecast_def Let_def and_then_Inr_iff by auto

lemma numeric_rows_each:
  assumes "traverse (\<lambda>row. and_then (num_of (snd row)) (\<lambda>v. Inr (fst row, v))) temp_data = Inr rows"
    and "row \<in> set temp_data"
  shows "\<exists>x. num_of (snd row) = Inr x"
  using assms
proof (induction temp_data arbitrary: rows)
  case Nil
  then show ?case by simp
next
  case (Cons r temp_data)
  then show ?case by (auto simp: and_then_Inr_iff)
qed

lemma readings_on_append:
  "readings_on day (xs @ ys) = readings_on day xs @ readings_on day ys"
  by (simp add: readings_on_def)

lemma readings_on_other_day:
  assumes "\<And>row. row \<in> set xs \<Longrightarrow> local_day (fst row) \<noteq> day"
  shows "readings_on day xs = []"
proof -
  have "filter (\<lambda>row. local_day (fst row) = day) xs = []"
    using assms by (simp add: filter_empty_conv)
  then show ?thesis by (simp add: readings_on_def)
qed

lemma readings_on_same_day:
  assumes "\<And>row. row \<in> set xs \<Longrightarrow> local_day (fst row) = day"
    and "\<And>row. row \<in> set xs \<Longrightarrow> \<exists>x. num_of (snd row) = Inr x"
  shows "length (readings_on day xs) = length xs"
  using assms
proof (induction xs)
  case Nil
  show ?case by (simp add: readings_on_def)
next
  case (Cons r xs)
  from Cons.prems(2) [of r] obtain x where x: "num_of (snd r) = Inr x" by auto
  have d: "local_day (fst r) = day" using Cons.prems(1) by simp
  have "readings_on day (r # xs) = x # readings_on day xs"
    by (simp add: readings_on_def d x)
  moreover have "length (readings_on day xs) = length xs"
    using Cons.prems by (intro Cons.IH) auto
  ultimately show ?case by simp
qed

lemma hourly_rows_append:
  "hourly_rows s (a @ b) = hourly_rows s a @ hourly_rows (s + 3600 * int (length a)) b"
  by (induction a arbitrary: s) (simp_all add: algebra_simps)

lemma length_hourly_rows: "length (hourly_rows s vs) = length vs"
  by (induction vs arbitrary: s) simp_all

lemma hourly_rows_bounds:
  assumes "row \<in> set (hourly_rows s vs)"
  shows "s \<le> utc (fst row) \<and> utc (fst row) < s + 3600 * int (length vs)
           \<and> utcoffset (fst row) = 0"
  using assms
proof (induction vs arbitrary: s)
  case Nil
  then show ?case by simp
next
  case (Cons v vs)
  show ?case
  proof (cases "row = (\<lparr>utc = s, utcoffset = 0\<rparr>, v)")
    case True
    then show ?thesis by simp
  next
    case False
    with Cons.prems have "row \<in> set (hourly_rows (s + 3600) vs)" by simp
    from Cons.IH [OF this] show ?thesis by simp
  qed
qed

lemma day_of_instant:
  fixes s u :: int
  assumes "s mod 86400 = 0" and "s \<le> u" and "u < s + 86400"
  shows "u div 86400 = s div 86400"
proof -
  define k where "k = s div 86400"
  define r where "r = u - s"
  have s: "s = k * 86400"
    using assms(1) unfolding k_def by (simp add: dvd_div_mult_self mod_eq_0_iff_dvd)
  have r: "0 \<le> r" "r < 86400" using assms(2,3) by (simp_all add: r_def)
  have "u = r + k * 86400" by (simp add: r_def s)
  then have "u div 86400 = r div 86400 + k"
    by simp
  also have "r div 86400 = 0" using r by (simp add: div_pos_pos_trivial)
  finally show ?thesis by (simp add: k_def)
qed

lemma hourly_rows_day:
  assumes "row \<in> set (hourly_rows s vs)" and "s mod 86400 = 0" and "length vs \<le> 24"
  shows "local_day (fst row) = s div 86400"
proof -
  from hourly_rows_bounds [OF assms(1)] assms(3)
  have "s \<le> utc (fst row)" "utc (fst row) < s + 86400" "utcoffset (fst row) = 0"
    by auto
  with day_of_instant [OF assms(2), of "utc (fst row)"] show ?thesis
    unfolding local_day_def by simp
qed

lemma set_readings_on:
  "set (readings_on day temp_data)
     = {x. \<exists>row \<in> set temp_data. local_day (fst row) = day \<and> num_of (snd row) = Inr x}"
  unfolding readings_on_def by (auto split: sum.splits)

lemma bucket_days:
  assumes "plot_forecast temp_data = Inr (temp24H, temp10D)" and "temp_data \<noteq> []"
  shows "map fst temp10D
           = [Min (set (map (local_day \<circ> fst) temp_data)) ..
              Max (set (map (local_day \<circ> fst) temp_data))]"
proof -
  from plot_forecast_Inr [OF assms(1)] obtain rows where
    rows: "traverse (\<lambda>row. and_then (num_of (snd row)) (\<lambda>v. Inr (fst row, v))) temp_data = Inr rows"
    and t10: "temp10D = resample_1D rows"
    by blast
  have f: "map fst rows = map fst temp_data"
    by (rule numeric_rows(1) [OF rows])
  with assms(2) have ne: "rows \<noteq> []" by auto
  have "map (local_day \<circ> fst) rows = map local_day (map fst rows)" by simp
  also have "\<dots> = map (local_day \<circ> fst) temp_data" unfolding f by simp
  finally have d: "map (local_day \<circ> fst) rows = map (local_day \<circ> fst) temp_data" .
  show ?thesis
    unfolding t10 resample_1D_eq [OF ne] d by (simp add: comp_def)
qed

lemma bucket_values:
  assumes "plot_forecast temp_data = Inr (temp24H, temp10D)" and "b \<in> set temp10D"
  shows "snd b = (if readings_on (fst b) temp_data = [] then None
                  else Some (Max (set (readings_on (fst b) temp_data)),
                             Min (set (readings_on (fst b) temp_data))))"
proof -
  from plot_forecast_Inr [OF assms(1)] obtain rows where
    rows: "traverse (\<lambda>row. and_then (num_of (snd row)) (\<lambda>v. Inr (fst row, v))) temp_data = Inr rows"
    and t10: "temp10D = resample_1D rows"
    by blast
  from assms(2) t10 have ne: "rows \<noteq> []"
    by (auto simp: resample_1D_Nil)
  from assms(2) obtain day where
    b: "b = (day, agg_max_min (map snd (filter (\<lambda>row. local_day (fst row) = day) rows)))"
    unfolding t10 resample_1D_eq [OF ne] by auto
  show ?thesis
    unfolding b numeric_rows(2) [OF rows] agg_max_min_eq by simp
qed

lemma observed_day_included:
  assumes "plot_forecast temp_data = Inr (temp24H, temp10D)" and "row \<in> set temp_data"
  shows "local_day (fst row) \<in> set (map fst temp10D)"
    and "readings_on (local_day (fst row)) temp_data \<noteq> []"
proof -
  from assms(2) have ne: "temp_data \<noteq> []" by auto
  let ?D = "set (map (local_day \<circ> fst) temp_data)"
  have "local_day (fst row) \<in> ?D" using assms(2) by auto
  then have "Min ?D \<le> local_day (fst row)" "local_day (fst row) \<le> Max ?D"
    by (simp_all del: set_map)
  then show "local_day (fst row) \<in> set (map fst temp10D)"
    unfolding bucket_days [OF assms(1) ne] by simp
  from plot_forecast_Inr [OF assms(1)] obtain rows where
    "traverse (\<lambda>row. and_then (num_of (snd row)) (\<lambda>v. Inr (fst row, v))) temp_data = Inr rows"
    by blast
  from numeric_rows_each [OF this assms(2)] obtain x where "num_of (snd row) = Inr x"
    by blast
  with assms(2) have "x \<in> set (readings_on (local_day (fst row)) temp_data)"
    unfolding set_readings_on by blast
  then show "readings_on (local_day (fst row)) temp_data \<noteq> []"
    by auto
qed

lemma twenty_six_hours:
  assumes "plot_forecast temp_data = Inr (temp24H, temp10D)"
    and "start mod 86400 = 0" and "length vs = 26" and "temp_data = hourly_rows start vs"
  shows "map fst temp10D = [start div 86400, start div 86400 + 1]"
    and "length (readings_on (start div 86400) temp_data) = 24"
    and "length (readings_on (start div 86400 + 1) temp_data) = 2"
proof -
  define d where "d = start div 86400"
  define A where "A = hourly_rows start (take 24 vs)"
  define B where "B = hourly_rows (start + 86400) (drop 24 vs)"
  have la: "length (take 24 vs) = 24" and lb: "length (drop 24 vs) = 2"
    using assms(3) by simp_all
  have "hourly_rows start (take 24 vs @ drop 24 vs) = A @ B"
    unfolding hourly_rows_append la A_def B_def by simp
  then have td: "temp_data = A @ B"
    using assms(4) by simp
  have s2: "(start + 86400) mod 86400 = 0" "(start + 86400) div 86400 = d + 1"
    using assms(2) by (simp_all add: d_def)
  have dayA: "local_day (fst row) = d" if "row \<in> set A" for row
    using hourly_rows_day [OF that [unfolded A_def] assms(2)] la by (simp add: d_def)
  have dayB: "local_day (fst row) = d + 1" if "row \<in> set B" for row
    using hourly_rows_day [OF that [unfolded B_def] s2(1)] lb s2(2) by simp
  have lenA: "length A = 24"
    unfolding A_def length_hourly_rows by (rule la)
  have lenB: "length B = 2"
    unfolding B_def length_hourly_rows by (rule lb)
  from plot_forecast_Inr [OF assms(1)] obtain rows where
    rows: "traverse (\<lambda>row. and_then (num_of (snd row)) (\<lambda>v. Inr (fst row, v))) temp_data = Inr rows"
    by blast
  have num: "\<exists>x. num_of (snd row) = Inr x" if "row \<in> set temp_data" for row
    by (rule numeric_rows_each [OF rows that])
  have "length (readings_on d A) = length A"
    by (rule readings_on_same_day) (use dayA num td in auto)
  moreover have "readings_on d B = []"
    by (rule readings_on_other_day) (use dayB in auto)
  ultimately show "length (readings_on (start div 86400) temp_data) = 24"
    by (simp add: td readings_on_append lenA d_def)
  have "length (readings_on (d + 1) B) = length B"
    by (rule readings_on_same_day) (use dayB num td in auto)
  moreover have "readings_on (d + 1) A = []"
    by (rule readings_on_other_day) (use dayA in auto)
  ultimately show "length (readings_on (start div 86400 + 1) temp_data) = 2"
    by (simp add: td readings_on_append lenB d_def)
  from lenA lenB have neA: "A \<noteq> []" and neB: "B \<noteq> []" by auto
  have "set (map (local_day \<circ> fst) temp_data) = {d, d + 1}"
  proof -
    have "local_day ` fst ` set A = {d}"
      using neA dayA by (cases A) auto
    moreover have "local_day ` fst ` set B = {d + 1}"
      using neB dayB by (cases B) auto
    ultimately show ?thesis
      by (simp add: td image_Un image_comp [symmetric]) blast
  qed
  moreover have "temp_data \<noteq> []" using td neA by simp
  ultimately have "map fst temp10D = [Min {d, d + 1} .. Max {d, d + 1}]"
    using bucket_days [OF assms(1)] by simp
  also have "\<dots> = [d, d + 1]"
    by (simp add: upto_rec1)
  finally show "map fst temp10D = [start div 86400, start div 86400 + 1]"
    by (simp add: d_def)
qed

lemma example_late_start:
  "map_sum id (map fst \<circ> snd) (plot_forecast (hourly_rows 1614639600 example_readings))
     = Inr [18687, 18688, 18689]"
  "length (hourly_rows 1614639600 example_readings) = 26"
  "length (readings_on 18688 (hourly_rows 1614639600 example_readings)) = 24"
  by code_simp+

lemma example_midnight_start:
  "plot_forecast (hourly_rows 1614556800 example_readings)
     = Inr (take 24 (hourly_rows 1614556800 example_readings),
            [(18687, Some (8, 0)), (18688, Some (2, 1))])"
  by code_simp

lemma example_readings_facts:
  "(1614556800 :: int) mod 86400 = 0" "length example_readings = 26"
  "(1614556800 :: int) div 86400 = 18687"
  by code_simp+

section \<open>Celsius to Fahrenheit\<close>


section \<open>The temperature text is read back\<close>



section \<open>Current conditions\<close>

text \<open>
  C6. For every details block that has the six named fields, \<open>get_current_weather\<close>
  returns the six metrics, each value printed and followed by its unit: \<open>hPa\<close>, \<open>\<degree>C\<close>,
  \<open>%\<close>, \<open>%\<close>, \<open>\<degree>\<close>, \<open>m/s\<close>. On the block with pressure 1013, temperature 15, cloud
  fraction 50, humidity 80, wind direction 270 and wind speed 3 this is the mapping
  \<open>1013hPa\<close>, \<open>15\<degree>C\<close>, \<open>50%\<close>, \<open>80%\<close>, \<open>270\<degree>\<close>, \<open>3m/s\<close>.
\<close>

theorem get_current_weather_units:
  assumes "subscript details ''air_pressure_at_sea_level'' = Inr p"
    and "subscript details ''air_temperature'' = Inr t"
    and "subscript details ''cloud_area_fraction'' = Inr c"
    and "subscript details ''relative_humidity'' = Inr h"
    and "subscript details ''wind_from_direction'' = Inr d"
    and "subscript details ''wind_speed'' = Inr s"
  shows "get_current_weather W details =
           Inr [(''Air pressure'', py_str W p @ ''hPa''),
                (''Air temperature'', py_str W t @ [degree_sign] @ ''C''),
                (''Cloud area fraction'', py_str W c @ ''%''),
                (''Relative humidity'', py_str W h @ ''%''),
                (''Wind direction (from)'', py_str W d @ [degree_sign]),
                (''Wind speed'', py_str W s @ ''m/s'')]"
  using assms by (simp add: get_current_weather_def)

theorem get_current_weather_units_witness:
  "\<forall>W. get_current_weather W
      (JDict [(''air_pressure_at_sea_level'', JInt 1013),
              (''air_temperature'', JInt 15),
              (''cloud_area_fraction'', JInt 50),
              (''relative_humidity'', JInt 80),
              (''wind_from_direction'', JInt 270),
              (''wind_speed'', JInt 3)])
    = Inr [(''Air pressure'', ''1013hPa''),
           (''Air temperature'', ''15'' @ [degree_sign] @ ''C''),
           (''Cloud area fraction'', ''50%''),
           (''Relative humidity'', ''80%''),
           (''Wind direction (from)'', ''270'' @ [degree_sign]),
           (''Wind speed'', ''3m/s'')]"
proof
  fix W
  let ?d = "JDict [(''air_pressure_at_sea_level'', JInt 1013),
              (''air_temperature'', JInt 15),
              (''cloud_area_fraction'', JInt 50),
              (''relative_humidity'', JInt 80),
              (''wind_from_direction'', JInt 270),
              (''wind_speed'', JInt 3)]"
  have "get_current_weather W ?d =
           Inr [(''Air pressure'', py_str W (JInt 1013) @ ''hPa''),
                (''Air temperature'', py_str W (JInt 15) @ [degree_sign] @ ''C''),
                (''Cloud area fraction'', py_str W (JInt 50) @ ''%''),
                (''Relative humidity'', py_str W (JInt 80) @ ''%''),
                (''Wind direction (from)'', py_str W (JInt 270) @ [degree_sign]),
                (''Wind speed'', py_str W (JInt 3) @ ''m/s'')]"
    by (rule get_current_weather_units) simp_all
  then show "get_current_weather W ?d
    = Inr [(''Air pressure'', ''1013hPa''),
           (''Air temperature'', ''15'' @ [degree_sign] @ ''C''),
           (''Cloud area fraction'', ''50%''),
           (''Relative humidity'', ''80%''),
           (''Wind direction (from)'', ''270'' @ [degree_sign]),
           (''Wind speed'', ''3m/s'')]"
    by (simp add: show_int_def show_nat_fixture)
qed

section \<open>Icons: all three or an error\<close>

text \<open>
  C7. When one of the windows \<open>next_1_hours\<close>, \<open>next_6_hours\<close>, \<open>next_12_hours\<close> is absent
  from the entry, \<open>get_weather_icons\<close> fails (with the \<open>KeyError\<close> or \<open>TypeError\<close> of a
  malformed response; with \<open>KeyError\<close> of \<open>next_12_hours\<close> when that window alone is
  missing) and never returns a partial icon set: whatever it returns has exactly the keys
  \<open>1h\<close>, \<open>6h\<close>, \<open>12h\<close>. When the three windows are there with their codes, it returns
  these codes under the three keys.
\<close>

theorem get_weather_icons_complete_or_error:
  "(key \<in> {''next_1_hours'', ''next_6_hours'', ''next_12_hours''} \<and> map_of kvs key = None
      \<longrightarrow> (\<exists>e. get_weather_icons (JDict kvs) = Inl e \<and> (e = TypeError \<or> (\<exists>k. e = KeyError k))))
   \<and> (window_code (JDict kvs) ''next_1_hours'' = Inr c1
         \<and> window_code (JDict kvs) ''next_6_hours'' = Inr c6
         \<and> map_of kvs ''next_12_hours'' = None
      \<longrightarrow> get_weather_icons (JDict kvs) = Inl (KeyError ''next_12_hours''))
   \<and> (get_weather_icons icon_info = Inr icons
      \<longrightarrow> map fst icons = [''1h'', ''6h'', ''12h''])
   \<and> (window_code icon_info ''next_1_hours'' = Inr c1
         \<and> window_code icon_info ''next_6_hours'' = Inr c6
         \<and> window_code icon_info ''next_12_hours'' = Inr c12
      \<longrightarrow> get_weather_icons icon_info = Inr [(''1h'', c1), (''6h'', c6), (''12h'', c12)])"
proof (intro conjI impI)
  assume a: "key \<in> {''next_1_hours'', ''next_6_hours'', ''next_12_hours''} \<and> map_of kvs key = None"
  then have k: "window_code (JDict kvs) key = Inl (KeyError key)"
    by (simp add: window_code_absent)
  from a have "\<exists>e. get_weather_icons (JDict kvs) = Inl e"
    unfolding get_weather_icons_unfold
    by (cases "window_code (JDict kvs) ''next_1_hours''";
        cases "window_code (JDict kvs) ''next_6_hours''";
        cases "window_code (JDict kvs) ''next_12_hours''")
       (use k in auto)
  then obtain e where e: "get_weather_icons (JDict kvs) = Inl e" by blast
  then have "e = TypeError \<or> (\<exists>k. e = KeyError k)"
    unfolding get_weather_icons_unfold and_then_def
    by (auto split: sum.splits dest: window_code_error)
  with e show "\<exists>e. get_weather_icons (JDict kvs) = Inl e \<and> (e = TypeError \<or> (\<exists>k. e = KeyError k))"
    by blast
next
  assume "window_code (JDict kvs) ''next_1_hours'' = Inr c1
         \<and> window_code (JDict kvs) ''next_6_hours'' = Inr c6
         \<and> map_of kvs ''next_12_hours'' = None"
  then show "get_weather_icons (JDict kvs) = Inl (KeyError ''next_12_hours'')"
    by (simp add: get_weather_icons_unfold window_code_absent)
next
  assume "get_weather_icons icon_info = Inr icons"
  then show "map fst icons = [''1h'', ''6h'', ''12h'']"
    unfolding get_weather_icons_unfold by (auto simp: and_then_Inr_iff)
next
  assume "window_code icon_info ''next_1_hours'' = Inr c1
         \<and> window_code icon_info ''next_6_hours'' = Inr c6
         \<and> window_code icon_info ''next_12_hours'' = Inr c12"
  then show "get_weather_icons icon_info = Inr [(''1h'', c1), (''6h'', c6), (''12h'', c12)]"
    by (simp add: get_weather_icons_unfold)
qed

theorem get_weather_icons_complete_or_error_witness:
  "get_weather_icons
     (JDict [(''next_1_hours'', summary_window ''rain''),
             (''next_6_hours'', summary_window ''lightrain'')])
     = Inl (KeyError ''next_12_hours'')
   \<and> get_weather_icons
       (JDict [(''next_12_hours'', summary_window ''cloudy''),
               (''next_1_hours'', summary_window ''rain''),
               (''next_6_hours'', summary_window ''lightrain'')])
     = Inr [(''1h'', JStr ''rain''), (''6h'', JStr ''lightrain''), (''12h'', JStr ''cloudy'')]
   \<and> map fst [(''1h'', JStr ''rain''), (''6h'', JStr ''lightrain''), (''12h'', JStr ''cloudy'')]
     = [''1h'', ''6h'', ''12h'']"
proof -
  let ?two = "[(''next_1_hours'', summary_window ''rain''),
               (''next_6_hours'', summary_window ''lightrain'')]"
  let ?three = "JDict ((''next_12_hours'', summary_window ''cloudy'') # ?two)"
  have w: "window_code (JDict ?two) ''next_1_hours'' = Inr (JStr ''rain'')"
    "window_code (JDict ?two) ''next_6_hours'' = Inr (JStr ''lightrain'')"
    "map_of ?two ''next_12_hours'' = None"
    "window_code ?three ''next_1_hours'' = Inr (JStr ''rain'')"
    "window_code ?three ''next_6_hours'' = Inr (JStr ''lightrain'')"
    "window_code ?three ''next_12_hours'' = Inr (JStr ''cloudy'')"
    by (simp_all add: window_code_def summary_window_def)
  have missing: "get_weather_icons (JDict ?two) = Inl (KeyError ''next_12_hours'')"
    using w(1-3)
      get_weather_icons_complete_or_error
        [where kvs = ?two and ?c1.0 = "JStr ''rain''" and ?c6.0 = "JStr ''lightrain''"]
    by blast
  have full: "get_weather_icons ?three
      = Inr [(''1h'', JStr ''rain''), (''6h'', JStr ''lightrain''), (''12h'', JStr ''cloudy'')]"
    using w(4-6)
      get_weather_icons_complete_or_error
        [where icon_info = ?three and ?c1.0 = "JStr ''rain''" and ?c6.0 = "JStr ''lightrain''"
           and ?c12.0 = "JStr ''cloudy''"]
    by blast
  from missing full show ?thesis by simp
qed

section \<open>The address of the caller\<close>




section \<open>The headline at 14.6 degrees\<close>

text \<open>
  C1, as the specification has it: with a current air temperature of 14.6 the headline
  contains \<open>15\<degree>C\<close> and \<open>59\<degree>F\<close>. The example world has this reading, and its headline is
  \<open>It's 15\<degree>C (58\<degree>F) in Oslo, Norway right now.\<close>, in which \<open>59\<degree>F\<close> does not occur.
\<close>

theorem headline_14_6_counterexample:
  "current_reading example_world ''192.0.2.1'' = Inr (JFloat False 14 [D6])
   \<and> map_sum id headline (process_weather_forecast example_world ''192.0.2.1'')
       = Inr (''It's 15'' @ [degree_sign] @ ''C (58'' @ [degree_sign]
              @ ''F) in Oslo, Norway right now.'')
   \<and> \<not> sublist (''59'' @ [degree_sign] @ ''F'')
         (''It's 15'' @ [degree_sign] @ ''C (58'' @ [degree_sign]
          @ ''F) in Oslo, Norway right now.'')"
  using example_current_reading [of "''192.0.2.1''"] example_headline not_59
  by (intro conjI)

text \<open>
  C1, amended: with a current air temperature of 14.6 the headline contains the Celsius
  value as \<open>15\<degree>C\<close> and the Fahrenheit value as \<open>58\<degree>F\<close>: each is rounded from the raw
  value, 14.6 to 15 and 58.28 to 58.
\<close>

theorem headline_14_6:
  assumes "process_weather_forecast W ip = Inr fc"
    and "current_reading W ip = Inr (JFloat False 14 [D6])"
  shows "sublist (''15'' @ [degree_sign] @ ''C'') (headline fc)
       \<and> sublist (''58'' @ [degree_sign] @ ''F'') (headline fc)"
proof -
  from assms(1) obtain location where "get_location W ip = Inr location"
    unfolding process_weather_forecast_def by (auto simp: and_then_Inr_iff)
  from get_location_Inr [OF this] obtain city country where
    c: "subscript (ip_api W ip) ''city'' = Inr city"
       "subscript (ip_api W ip) ''country'' = Inr country"
    by blast
  have n: "num_of (JFloat False 14 [D6]) = Inr (73 / 5)"
    by (simp add: float_value_def)
  let ?rest = "'' in '' @ py_str W city @ '', '' @ py_str W country @ '' right now.''"
  let ?C = "''15'' @ [degree_sign] @ ''C''"
  let ?F = "''58'' @ [degree_sign] @ ''F''"
  have h: "headline fc = ''It's '' @ ?C @ ('' ('' @ ?F @ '')'' @ ?rest)"
    using process_headline [OF assms n c] by (simp add: format_0f_14_6)
  have h': "headline fc = (''It's '' @ ?C @ '' ('') @ ?F @ ('')'' @ ?rest)"
    using h by simp
  have "sublist ?C (headline fc)"
    by (subst h) (rule sublist_appendI)
  moreover have "sublist ?F (headline fc)"
    by (subst h') (rule sublist_appendI)
  ultimately show ?thesis by (rule conjI)
qed

theorem headline_14_6_witness:
  "current_reading example_world ''192.0.2.1'' = Inr (JFloat False 14 [D6])
   \<and> (\<exists>fc. process_weather_forecast example_world ''192.0.2.1'' = Inr fc
         \<and> sublist (''15'' @ [degree_sign] @ ''C'') (headline fc)
         \<and> sublist (''58'' @ [degree_sign] @ ''F'') (headline fc))"
proof -
  obtain fc where fc: "process_weather_forecast example_world ''192.0.2.1'' = Inr fc"
    using example_forecast_ok by (cases "process_weather_forecast example_world ''192.0.2.1''") auto
  from headline_14_6 [OF fc example_current_reading] fc example_current_reading
  show ?thesis by blast
qed

section \<open>The headline rounds each temperature from the raw reading\<close>



section \<open>The series follows the entries\<close>

text \<open>
  C4. The temperature series \<open>get_temperature_time_series\<close> builds from a list of forecast
  entries and a time zone has as many rows as there are entries; its i-th value is the
  instantaneous air temperature of the i-th entry and its i-th timestamp is the time of
  the i-th entry in the given zone (the same instant, with the zone's offset). The rows
  are in the order of the entries: nothing is sorted.
\<close>

theorem temperature_series_rows:
  assumes "get_temperature_time_series W (JList entries) timezone = Inr series"
  shows "length series = length entries
       \<and> (\<exists>tz. timezone_rules W timezone = Some tz
            \<and> (\<forall>i < length entries. \<exists>label t off.
                   subscript (entries ! i) ''time'' = Inr label
                 \<and> to_datetime W label = Some (Aware t off)
                 \<and> fst (series ! i) = \<lparr>utc = t, utcoffset = tz t\<rparr>
                 \<and> entry_temperature (entries ! i) = Inr (snd (series ! i))))"
proof -
  from series_Inr [OF assms] obtain tz labels ts temps off where
    tz: "timezone_rules W timezone = Some tz"
    and l: "list_all2 (\<lambda>e l. subscript e ''time'' = Inr l) entries labels"
    and t: "list_all2 (\<lambda>l t. to_datetime W l = Some t) labels ts"
    and a: "\<forall>t \<in> set ts. t = Aware (clock t) off"
    and v: "list_all2 (\<lambda>e v. entry_temperature e = Inr v) entries temps"
    and s: "series = zip (map (\<lambda>t. \<lparr>utc = clock t, utcoffset = tz (clock t)\<rparr>) ts) temps"
    by blast
  have len: "length labels = length entries" "length ts = length entries"
    "length temps = length entries"
    using list_all2_lengthD [OF l] list_all2_lengthD [OF t] list_all2_lengthD [OF v]
    by simp_all
  have rows: "\<exists>label t off.
                   subscript (entries ! i) ''time'' = Inr label
                 \<and> to_datetime W label = Some (Aware t off)
                 \<and> fst (series ! i) = \<lparr>utc = t, utcoffset = tz t\<rparr>
                 \<and> entry_temperature (entries ! i) = Inr (snd (series ! i))"
    if i: "i < length entries" for i
  proof -
    from l i have 1: "subscript (entries ! i) ''time'' = Inr (labels ! i)"
      by (rule list_all2_nthD)
    from i len have il: "i < length labels" by simp
    from t il have "to_datetime W (labels ! i) = Some (ts ! i)"
      by (rule list_all2_nthD)
    moreover from a i len have "ts ! i = Aware (clock (ts ! i)) off"
      by simp
    ultimately have 2: "to_datetime W (labels ! i) = Some (Aware (clock (ts ! i)) off)"
      by simp
    from v i have 3: "entry_temperature (entries ! i) = Inr (temps ! i)"
      by (rule list_all2_nthD)
    from i len have 4: "series ! i
        = (\<lparr>utc = clock (ts ! i), utcoffset = tz (clock (ts ! i))\<rparr>, temps ! i)"
      by (simp add: s)
    from 1 2 3 4 show ?thesis by simp
  qed
  from len have "length series = length entries"
    by (simp add: s)
  with tz rows show ?thesis by blast
qed

theorem temperature_series_rows_witness:
  "get_temperature_time_series example_world (JList example_entries) (JStr ''Europe/Oslo'')
     = Inr [(\<lparr>utc = 1614600000, utcoffset = 3600\<rparr>, JFloat False 14 [D6]),
            (\<lparr>utc = 1614603600, utcoffset = 3600\<rparr>, JInt 15)]
   \<and> length [(\<lparr>utc = 1614600000, utcoffset = 3600\<rparr>, JFloat False 14 [D6]),
              (\<lparr>utc = 1614603600, utcoffset = 3600\<rparr>, JInt 15)]
       = length example_entries
   \<and> (\<exists>tz. timezone_rules example_world (JStr ''Europe/Oslo'') = Some tz)"
  using example_series temperature_series_rows [OF example_series]
  by blast

section \<open>The empty forecast\<close>

text \<open>
  C10, as the specification has it: for the empty list of entries the series is built
  without an error and is empty. In the example world, with a known time zone, the
  conversion of the empty index raises \<open>TypeError\<close>.
\<close>

theorem empty_series_counterexample:
  "get_temperature_time_series example_world (JList []) (JStr ''Europe/Oslo'') = Inl TypeError"
  by (simp add: empty_series) (simp add: example_world_def)

text \<open>
  C10, amended: for the empty list of entries no series is returned. pandas reads the
  empty list of labels as an index without a zone, and \<open>tz_convert\<close> raises \<open>TypeError\<close>
  on it (\<open>UnknownTimeZoneError\<close> when the zone is unknown, which is found first). The
  series is built, as long as the list, for every non-empty list of entries that each
  have a time label with one common UTC offset and an air temperature, in a known zone.
\<close>

theorem empty_series_raises:
  "get_temperature_time_series W (JList []) timezone
     = (case timezone_rules W timezone of
          None \<Rightarrow> Inl UnknownTimeZoneError
        | Some tz \<Rightarrow> Inl TypeError)
   \<and> (entries \<noteq> [] \<and> list_all (timed_entry W off) entries
         \<and> timezone_rules W timezone \<noteq> None
       \<longrightarrow> (\<exists>series. get_temperature_time_series W (JList entries) timezone = Inr series
              \<and> length series = length entries))"
proof (intro conjI impI)
  show "get_temperature_time_series W (JList []) timezone
     = (case timezone_rules W timezone of
          None \<Rightarrow> Inl UnknownTimeZoneError
        | Some tz \<Rightarrow> Inl TypeError)"
    by (rule empty_series)
next
  assume a: "entries \<noteq> [] \<and> list_all (timed_entry W off) entries
         \<and> timezone_rules W timezone \<noteq> None"
  then obtain tz where "timezone_rules W timezone = Some tz" by blast
  with a obtain series where
    s: "get_temperature_time_series W (JList entries) timezone = Inr series"
    using series_total [of entries W off timezone tz] by blast
  with series_length [OF s]
  show "\<exists>series. get_temperature_time_series W (JList entries) timezone = Inr series
              \<and> length series = length entries"
    by blast
qed

theorem empty_series_raises_witness:
  "timezone_rules example_world (JStr ''Europe/Oslo'') \<noteq> None
   \<and> get_temperature_time_series example_world (JList []) (JStr ''Europe/Oslo'')
       = (case timezone_rules example_world (JStr ''Europe/Oslo'') of
            None \<Rightarrow> Inl UnknownTimeZoneError
          | Some tz \<Rightarrow> Inl TypeError)
   \<and> example_entries \<noteq> []
   \<and> list_all (timed_entry example_world 0) example_entries
   \<and> (\<exists>series. get_temperature_time_series example_world (JList example_entries)
          (JStr ''Europe/Oslo'') = Inr series
        \<and> length series = length example_entries)"
  using example_entries_timed
    empty_series_raises [of example_world "JStr ''Europe/Oslo''" example_entries 0]
  by blast

section \<open>Buckets of the ten-day chart\<close>

text \<open>
  C8, as the specification has it: a 26-hour series in UTC gives exactly two day buckets,
  the second made from two hours. Twenty-six hourly rows that start at 23:00 UTC fall on
  three calendar days, and the second bucket is made from 24 hours.
\<close>

theorem day_buckets_counterexample:
  "length (hourly_rows 1614639600 example_readings) = 26
   \<and> map_sum id (map fst \<circ> snd) (plot_forecast (hourly_rows 1614639600 example_readings))
       = Inr [18687, 18688, 18689]
   \<and> length (readings_on 18688 (hourly_rows 1614639600 example_readings)) = 24"
  using example_late_start by (intro conjI)

text \<open>
  C8, amended: the ten-day chart groups the rows by calendar day of the series' zone and
  gives each day its maximum and minimum. Every day that has a row is included, with the
  maximum and minimum of the readings of that day alone, however few they are. A 26-hour
  hourly series in UTC that starts at midnight gives exactly two buckets: the first from
  24 hours, the second from the 2 hours that remain.
\<close>

theorem day_buckets:
  assumes "plot_forecast temp_data = Inr (temp24H, temp10D)"
  shows "(\<forall>row \<in> set temp_data.
            local_day (fst row) \<in> set (map fst temp10D)
          \<and> readings_on (local_day (fst row)) temp_data \<noteq> [])
       \<and> (\<forall>b \<in> set temp10D.
            snd b = (if readings_on (fst b) temp_data = [] then None
                     else Some (Max (set (readings_on (fst b) temp_data)),
                                Min (set (readings_on (fst b) temp_data)))))
       \<and> (start mod 86400 = 0 \<and> length vs = 26 \<and> temp_data = hourly_rows start vs
          \<longrightarrow> map fst temp10D = [start div 86400, start div 86400 + 1]
              \<and> length (readings_on (start div 86400) temp_data) = 24
              \<and> length (readings_on (start div 86400 + 1) temp_data) = 2)"
proof (intro conjI ballI impI)
  fix row
  assume "row \<in> set temp_data"
  then show "local_day (fst row) \<in> set (map fst temp10D)"
    and "readings_on (local_day (fst row)) temp_data \<noteq> []"
    by (rule observed_day_included [OF assms])+
next
  fix b
  assume "b \<in> set temp10D"
  then show "snd b = (if readings_on (fst b) temp_data = [] then None
                     else Some (Max (set (readings_on (fst b) temp_data)),
                                Min (set (readings_on (fst b) temp_data))))"
    by (rule bucket_values [OF assms])
next
  assume a: "start mod 86400 = 0 \<and> length vs = 26 \<and> temp_data = hourly_rows start vs"
  then have s: "start mod 86400 = 0" and l: "length vs = 26"
    and t: "temp_data = hourly_rows start vs"
    by simp_all
  show "map fst temp10D = [start div 86400, start div 86400 + 1]"
    and "length (readings_on (start div 86400) temp_data) = 24"
    and "length (readings_on (start div 86400 + 1) temp_data) = 2"
    by (rule twenty_six_hours [OF assms s l t])+
qed

theorem day_buckets_witness:
  "plot_forecast (hourly_rows 1614556800 example_readings)
     = Inr (take 24 (hourly_rows 1614556800 example_readings),
            [(18687, Some (8, 0)), (18688, Some (2, 1))])
   \<and> (1614556800 :: int) mod 86400 = 0
   \<and> length example_readings = 26
   \<and> map fst [(18687 :: int, Some (8 :: rat, 0 :: rat)), (18688, Some (2, 1))]
       = [1614556800 div 86400, 1614556800 div 86400 + 1]
   \<and> length (readings_on (1614556800 div 86400) (hourly_rows 1614556800 example_readings)) = 24
   \<and> length (readings_on (1614556800 div 86400 + 1) (hourly_rows 1614556800 example_readings)) = 2"
proof -
  let ?data = "hourly_rows 1614556800 example_readings"
  have hyp: "(1614556800 :: int) mod 86400 = 0 \<and> length example_readings = 26 \<and> ?data = ?data"
    using example_readings_facts(1,2) by (intro conjI refl)
  from day_buckets [OF example_midnight_start, of 1614556800 example_readings]
  have "(1614556800 :: int) mod 86400 = 0 \<and> length example_readings = 26 \<and> ?data = ?data
      \<longrightarrow> map fst [(18687 :: int, Some (8 :: rat, 0 :: rat)), (18688, Some (2, 1))]
            = [1614556800 div 86400, 1614556800 div 86400 + 1]
          \<and> length (readings_on (1614556800 div 86400) ?data) = 24
          \<and> length (readings_on (1614556800 div 86400 + 1) ?data) = 2"
    by (rule conjunct2 [THEN conjunct2])
  from this hyp have "map fst [(18687 :: int, Some (8 :: rat, 0 :: rat)), (18688, Some (2, 1))]
            = [1614556800 div 86400, 1614556800 div 86400 + 1]
          \<and> length (readings_on (1614556800 div 86400) ?data) = 24
          \<and> length (readings_on (1614556800 div 86400 + 1) ?data) = 2"
    by (rule mp)
  with example_midnight_start example_readings_facts(1,2) show ?thesis
    by (intro conjI) (erule conjunct1 conjunct2 | assumption | erule conjunct2 [THEN conjunct1] | erule conjunct2 [THEN conjunct2])+
qed

end
